theory Spec2Isabelle
  imports Main
begin

section \<open>JavaScript values and thrown values\<close>

text \<open>
  The handler receives \<^verbatim>\<open>event: any\<close>: any JavaScript value built from the
  constructors below. A number is given by the two things the program observes
  of it: whether it is truthy (neither zero nor \<^verbatim>\<open>NaN\<close>) and its string conversion
  (\<^verbatim>\<open>1e+21\<close> for \<open>10\<^sup>2\<^sup>1\<close>); a number is never strictly equal to a string. An
  object is a plain object, the list of its own properties, with the prototype
  \<^verbatim>\<open>Object.prototype\<close>; where a key is listed twice the first binding is its value.
  No value of the model is callable.
\<close>

datatype js_value =
    JSUndefined
  | JSNull
  | JSBool bool
  | JSNum bool string
  | JSStr string
  | JSArr "js_value list"
  | JSObj "(string \<times> js_value) list"

text \<open>
  What a \<^verbatim>\<open>throw\<close> or a rejected promise carries: \<^verbatim>\<open>new Error(message)\<close>, the
  \<^verbatim>\<open>TypeError\<close> of a property read on null or undefined, or an error object of the
  SDK with the fields of the source's interface
  \<^verbatim>\<open>AWSError { code?: string; message?: string }\<close>.
\<close>

datatype thrown =
    Error string
  | TypeError string
  | AWSError "string option" "string option"

text \<open>
  Property access \<^verbatim>\<open>v[k]\<close>. The source reads only the keys \<^verbatim>\<open>detail\<close>,
  \<^verbatim>\<open>instance-id\<close> and \<^verbatim>\<open>state\<close>, which no array, string, number or boolean has.
\<close>

fun get_prop :: "js_value \<Rightarrow> string \<Rightarrow> thrown + js_value" where
  "get_prop JSUndefined k =
     Inl (TypeError (''Cannot read properties of undefined (reading '' @ [CHR 0x27] @ k @ [CHR 0x27] @ '')''))"
| "get_prop JSNull k =
     Inl (TypeError (''Cannot read properties of null (reading '' @ [CHR 0x27] @ k @ [CHR 0x27] @ '')''))"
| "get_prop (JSObj kvs) k = Inr (case map_of kvs k of None \<Rightarrow> JSUndefined | Some v \<Rightarrow> v)"
| "get_prop _ k = Inr JSUndefined"

text \<open>JavaScript truthiness, the test behind \<^verbatim>\<open>!x\<close> and \<^verbatim>\<open>if (x)\<close>.\<close>

fun truthy :: "js_value \<Rightarrow> bool" where
  "truthy JSUndefined = False"
| "truthy JSNull = False"
| "truthy (JSBool b) = b"
| "truthy (JSNum nonzero s) = nonzero"
| "truthy (JSStr s) = (s \<noteq> [])"
| "truthy (JSArr xs) = True"
| "truthy (JSObj kvs) = True"

text \<open>\<^verbatim>\<open>typeof v === 'object'\<close>\<close>

fun typeof_object :: "js_value \<Rightarrow> bool" where
  "typeof_object JSNull = True"
| "typeof_object (JSArr xs) = True"
| "typeof_object (JSObj kvs) = True"
| "typeof_object _ = False"

text \<open>Truthiness of an optional string (\<^verbatim>\<open>string | undefined\<close>).\<close>

fun truthy_str :: "string option \<Rightarrow> bool" where
  "truthy_str None = False"
| "truthy_str (Some s) = (s \<noteq> [])"

text \<open>
  Decimal rendering of the integers the source converts itself (the seconds of
  line 157, the intervals of the agent configuration).
\<close>

function show_nat :: "nat \<Rightarrow> string" where
  "show_nat n =
     (if n < 10 then [''0123456789'' ! n]
      else show_nat (n div 10) @ [''0123456789'' ! (n mod 10)])"
  by pat_completeness auto
termination
  by (relation "measure (\<lambda>n. n)") auto

definition show_int :: "int \<Rightarrow> string" where
  "show_int n = (if n < 0 then CHR ''-'' # show_nat (nat (- n)) else show_nat (nat n))"

fun join_commas :: "string list \<Rightarrow> string" where
  "join_commas [] = []"
| "join_commas [x] = x"
| "join_commas (x # y # ys) = x @ '','' @ join_commas (y # ys)"

text \<open>
  \<^verbatim>\<open>`${v}`\<close>: the string conversion of a template literal, for the values that
  have one (see \<open>convertible\<close> below). An array joins the conversions of its
  elements with commas, a null or undefined element giving the empty string; an
  object without a \<^verbatim>\<open>toString\<close> of its own gives \<^verbatim>\<open>[object Object]\<close>.
\<close>

primrec template :: "js_value \<Rightarrow> string" where
  "template JSUndefined = ''undefined''"
| "template JSNull = ''null''"
| "template (JSBool b) = (if b then ''true'' else ''false'')"
| "template (JSNum nonzero s) = s"
| "template (JSStr s) = s"
| "template (JSArr xs) =
     join_commas
       (map (\<lambda>(x, s). if x = JSNull \<or> x = JSUndefined then [] else s) (zip xs (map template xs)))"
| "template (JSObj kvs) = ''[object Object]''"

text \<open>
  Whether a value has a string conversion. An object that has a property
  \<^verbatim>\<open>toString\<close> of its own has none: the property is not callable, and neither it
  nor \<^verbatim>\<open>valueOf\<close> gives a primitive, so the conversion throws a \<^verbatim>\<open>TypeError\<close>. An
  array converts each element that is neither null nor undefined.
\<close>

primrec convertible :: "js_value \<Rightarrow> bool" where
  "convertible JSUndefined = True"
| "convertible JSNull = True"
| "convertible (JSBool b) = True"
| "convertible (JSNum nonzero s) = True"
| "convertible (JSStr s) = True"
| "convertible (JSArr xs) =
     list_all (\<lambda>(x, c). x = JSNull \<or> x = JSUndefined \<or> c) (zip xs (map convertible xs))"
| "convertible (JSObj kvs) = (map_of kvs ''toString'' = None)"

text \<open>The conversion itself: the string, or the \<^verbatim>\<open>TypeError\<close>.\<close>

definition to_string :: "js_value \<Rightarrow> thrown + string" where
  "to_string v =
     (if convertible v then Inr (template v)
      else Inl (TypeError ''Cannot convert object to primitive value''))"

text \<open>\<^verbatim>\<open>`${s}`\<close> for a \<^verbatim>\<open>string | undefined\<close>.\<close>

fun template_opt :: "string option \<Rightarrow> string" where
  "template_opt None = ''undefined''"
| "template_opt (Some s) = s"

section \<open>Requests and responses of the collaborators\<close>

record ec2_instance =
  InstanceType :: "string option"
  ImageId :: "string option"

record reservation =
  Instances :: "ec2_instance list option"

record describe_instances_result =
  Reservations :: "reservation list option"

record send_command_request =
  DocumentName :: string
  InstanceIds :: "js_value list"
  Parameters :: "(string \<times> string list) list"

record command =
  CommandId :: "string option"

record send_command_result =
  Command :: "command option"

record get_command_invocation_result =
  Status :: "string option"
  StandardErrorContent :: "string option"

record put_parameter_request =
  Name :: string
  Type :: string
  Value :: string
  Overwrite :: bool

record put_metric_alarm_request =
  AlarmName :: string
  MetricName :: string
  Namespace :: string
  Period :: nat
  EvaluationPeriods :: nat
  DatapointsToAlarm :: nat
  Threshold :: nat
  ActionsEnabled :: bool
  AlarmActions :: "string list"
  ComparisonOperator :: string
  TreatMissingData :: string
  Statistic :: string
  Dimensions :: "(string \<times> js_value) list"
  AlarmDescription :: string

text \<open>The remote calls of the source, with their request objects.\<close>

datatype call =
    DescribeInstances "js_value list"
  | SendCommand send_command_request
  | GetCommandInvocation string js_value
  | PutParameter put_parameter_request
  | PutMetricAlarm put_metric_alarm_request
  | DeleteAlarms "string list"

datatype reply =
    Rejected thrown
  | Described describe_instances_result
  | Sent send_command_result
  | Invocation get_command_invocation_result
  | Ack

text \<open>
  What one invocation does, in order: a timer wait of so many milliseconds, or a
  remote call with the reply it got.
\<close>

datatype event = Sleep nat | Remote call reply

section \<open>The collaborators and the effect type\<close>

text \<open>
  The global SDK clients of the source (\<^verbatim>\<open>ec2\<close>, \<^verbatim>\<open>ssm\<close>, \<^verbatim>\<open>cloudwatch\<close>) and the
  timer, as functions on the state \<open>'w\<close> of the world outside the handler. A
  promise that rejects is \<open>Inl\<close>.
\<close>

record 'w services =
  ec2_describeInstances :: "js_value list \<Rightarrow> 'w \<Rightarrow> (thrown + describe_instances_result) \<times> 'w"
  ssm_sendCommand :: "send_command_request \<Rightarrow> 'w \<Rightarrow> (thrown + send_command_result) \<times> 'w"
  ssm_getCommandInvocation ::
    "string \<Rightarrow> js_value \<Rightarrow> 'w \<Rightarrow> (thrown + get_command_invocation_result) \<times> 'w"
  ssm_putParameter :: "put_parameter_request \<Rightarrow> 'w \<Rightarrow> (thrown + unit) \<times> 'w"
  cloudwatch_putMetricAlarm :: "put_metric_alarm_request \<Rightarrow> 'w \<Rightarrow> (thrown + unit) \<times> 'w"
  cloudwatch_deleteAlarms :: "string list \<Rightarrow> 'w \<Rightarrow> (thrown + unit) \<times> 'w"
  setTimeout :: "nat \<Rightarrow> 'w \<Rightarrow> 'w"

text \<open>
  An \<^verbatim>\<open>async\<close> function: from the world to its outcome (\<open>Inl\<close> what it threw), the
  events it performed, and the world after.
\<close>

type_synonym ('w, 'a) async = "'w \<Rightarrow> (thrown + 'a) \<times> event list \<times> 'w"

definition resolve :: "'a \<Rightarrow> ('w, 'a) async" where
  "resolve x w = (Inr x, [], w)"

definition throw :: "thrown \<Rightarrow> ('w, 'a) async" where
  "throw e w = (Inl e, [], w)"

definition await :: "('w, 'a) async \<Rightarrow> ('a \<Rightarrow> ('w, 'b) async) \<Rightarrow> ('w, 'b) async" where
  "await m f w =
     (case m w of
        (Inl e, evs, w1) \<Rightarrow> (Inl e, evs, w1)
      | (Inr x, evs, w1) \<Rightarrow> (case f x w1 of (r, evs2, w2) \<Rightarrow> (r, evs @ evs2, w2)))"

definition try_catch :: "('w, 'a) async \<Rightarrow> (thrown \<Rightarrow> ('w, 'a) async) \<Rightarrow> ('w, 'a) async" where
  "try_catch m h w =
     (case m w of
        (Inl e, evs, w1) \<Rightarrow> (case h e w1 of (r, evs2, w2) \<Rightarrow> (r, evs @ evs2, w2))
      | (Inr x, evs, w1) \<Rightarrow> (Inr x, evs, w1))"

definition remote :: "call \<Rightarrow> ('a \<Rightarrow> reply) \<Rightarrow> ('w \<Rightarrow> (thrown + 'a) \<times> 'w) \<Rightarrow> ('w, 'a) async" where
  "remote c shown f w =
     (case f w of
        (Inl e, w1) \<Rightarrow> (Inl e, [Remote c (Rejected e)], w1)
      | (Inr x, w1) \<Rightarrow> (Inr x, [Remote c (shown x)], w1))"

text \<open>\<^verbatim>\<open>await new Promise(resolve => setTimeout(resolve, ms))\<close>\<close>

definition sleep :: "'w services \<Rightarrow> nat \<Rightarrow> ('w, unit) async" where
  "sleep sv ms w = (Inr (), [Sleep ms], setTimeout sv ms w)"

text \<open>The six remote calls, each recorded with its request and its reply.\<close>

definition describeInstances :: "'w services \<Rightarrow> js_value list \<Rightarrow> ('w, describe_instances_result) async" where
  "describeInstances sv ids = remote (DescribeInstances ids) Described (ec2_describeInstances sv ids)"

definition sendCommand :: "'w services \<Rightarrow> send_command_request \<Rightarrow> ('w, send_command_result) async" where
  "sendCommand sv req = remote (SendCommand req) Sent (ssm_sendCommand sv req)"

definition getCommandInvocation ::
  "'w services \<Rightarrow> string \<Rightarrow> js_value \<Rightarrow> ('w, get_command_invocation_result) async" where
  "getCommandInvocation sv commandId instanceId =
     remote (GetCommandInvocation commandId instanceId) Invocation
       (ssm_getCommandInvocation sv commandId instanceId)"

definition putParameter :: "'w services \<Rightarrow> put_parameter_request \<Rightarrow> ('w, unit) async" where
  "putParameter sv req = remote (PutParameter req) (\<lambda>_. Ack) (ssm_putParameter sv req)"

definition putMetricAlarm :: "'w services \<Rightarrow> put_metric_alarm_request \<Rightarrow> ('w, unit) async" where
  "putMetricAlarm sv req = remote (PutMetricAlarm req) (\<lambda>_. Ack) (cloudwatch_putMetricAlarm sv req)"

definition deleteAlarms_call :: "'w services \<Rightarrow> string list \<Rightarrow> ('w, unit) async" where
  "deleteAlarms_call sv names = remote (DeleteAlarms names) (\<lambda>_. Ack) (cloudwatch_deleteAlarms sv names)"

section \<open>\<^verbatim>\<open>getInstanceInfo\<close>\<close>

record InstanceInfo =
  instanceType :: string
  imageId :: string

text \<open>\<^verbatim>\<open>result.Reservations?.[0]?.Instances?.[0]\<close>\<close>

definition first_instance :: "describe_instances_result \<Rightarrow> ec2_instance option" where
  "first_instance result =
     (case Reservations result of
        None \<Rightarrow> None
      | Some [] \<Rightarrow> None
      | Some (r # _) \<Rightarrow>
          (case Instances r of
             None \<Rightarrow> None
           | Some [] \<Rightarrow> None
           | Some (i # _) \<Rightarrow> Some i))"

definition not_found :: "js_value \<Rightarrow> thrown" where
  "not_found instanceId =
     Error (''Could not find instance information for instance '' @ template instanceId)"

text \<open>The check of line 24 and the object returned at lines 28 to 31.\<close>

definition instance_info :: "describe_instances_result \<Rightarrow> InstanceInfo option" where
  "instance_info result =
     (case first_instance result of
        None \<Rightarrow> None
      | Some inst \<Rightarrow>
          (case (InstanceType inst, ImageId inst) of
             (Some t, Some im) \<Rightarrow>
               if t = [] \<or> im = [] then None else Some \<lparr>instanceType = t, imageId = im\<rparr>
           | _ \<Rightarrow> None))"

definition getInstanceInfo :: "'w services \<Rightarrow> js_value \<Rightarrow> ('w, InstanceInfo) async" where
  "getInstanceInfo sv instanceId =
     await (describeInstances sv [instanceId]) (\<lambda>result.
       case instance_info result of
         None \<Rightarrow> throw (not_found instanceId)
       | Some instanceInfo \<Rightarrow> resolve instanceInfo)"

section \<open>\<^verbatim>\<open>waitForCommandCompletion\<close>\<close>

definition maxAttempts :: nat where
  "maxAttempts = 30"

text \<open>The test of the \<^verbatim>\<open>catch\<close> clause, line 147.\<close>

fun is_InvocationDoesNotExist :: "thrown \<Rightarrow> bool" where
  "is_InvocationDoesNotExist (AWSError (Some c) m) = (c = ''InvocationDoesNotExist'')"
| "is_InvocationDoesNotExist _ = False"

text \<open>\<^verbatim>\<open>result.Status || ''\<close>\<close>

definition status_or_empty :: "get_command_invocation_result \<Rightarrow> string" where
  "status_or_empty result = (case Status result of None \<Rightarrow> [] | Some st \<Rightarrow> st)"

definition command_failed :: "get_command_invocation_result \<Rightarrow> thrown" where
  "command_failed result =
     Error (''Command failed with status '' @ template_opt (Status result) @ '': '' @
            template_opt (StandardErrorContent result))"

definition command_timed_out :: thrown where
  "command_timed_out = Error (''Command timed out after '' @ show_nat (maxAttempts * 10) @ '' seconds'')"

text \<open>
  The \<^verbatim>\<open>try\<close> block of the loop, lines 128 to 145. \<open>True\<close> is the \<^verbatim>\<open>return\<close> of line
  136; \<open>False\<close> is the end of the block, after the wait of line 144, where line 145
  increments \<^verbatim>\<open>attempts\<close> and the loop goes on.
\<close>

definition try_block :: "'w services \<Rightarrow> js_value \<Rightarrow> string \<Rightarrow> ('w, bool) async" where
  "try_block sv instanceId commandId =
     await (getCommandInvocation sv commandId instanceId) (\<lambda>result.
       if status_or_empty result \<in> set [''Success'', ''Complete''] then resolve True
       else if status_or_empty result \<in> set [''Failed'', ''Cancelled'', ''TimedOut'']
         then throw (command_failed result)
       else await (sleep sv 10000) (\<lambda>_. resolve False))"

text \<open>
  The \<^verbatim>\<open>catch\<close> clause, lines 146 to 154: an error whose code is
  \<^verbatim>\<open>InvocationDoesNotExist\<close> waits, increments \<^verbatim>\<open>attempts\<close> and continues; any other
  one is thrown again.
\<close>

definition catch_block :: "'w services \<Rightarrow> thrown \<Rightarrow> ('w, bool) async" where
  "catch_block sv error =
     (if is_InvocationDoesNotExist error then await (sleep sv 10000) (\<lambda>_. resolve False)
      else throw error)"

definition attempt :: "'w services \<Rightarrow> js_value \<Rightarrow> string \<Rightarrow> ('w, bool) async" where
  "attempt sv instanceId commandId =
     try_catch (try_block sv instanceId commandId) (catch_block sv)"

text \<open>The \<^verbatim>\<open>while\<close> loop of lines 126 to 155 and the \<^verbatim>\<open>throw\<close> of line 157 after it.\<close>

function wait_loop :: "'w services \<Rightarrow> js_value \<Rightarrow> string \<Rightarrow> nat \<Rightarrow> ('w, unit) async" where
  "wait_loop sv instanceId commandId attempts w =
     (if attempts < maxAttempts then
        (case attempt sv instanceId commandId w of
           (Inl e, evs, w1) \<Rightarrow> (Inl e, evs, w1)
         | (Inr True, evs, w1) \<Rightarrow> (Inr (), evs, w1)
         | (Inr False, evs, w1) \<Rightarrow>
             (case wait_loop sv instanceId commandId (attempts + 1) w1 of
                (r, evs2, w2) \<Rightarrow> (r, evs @ evs2, w2)))
      else throw command_timed_out w)"
  by pat_completeness auto
termination
  by (relation "measure (\<lambda>(sv, instanceId, commandId, attempts, w). maxAttempts - attempts)") auto

definition waitForCommandCompletion :: "'w services \<Rightarrow> js_value \<Rightarrow> string \<Rightarrow> ('w, unit) async" where
  "waitForCommandCompletion sv instanceId commandId =
     await (sleep sv 5000) (\<lambda>_. wait_loop sv instanceId commandId 0)"

section \<open>\<^verbatim>\<open>installCloudWatchAgent\<close>\<close>

text \<open>
  The object literal \<^verbatim>\<open>configContent\<close> is a JSON value, and \<^verbatim>\<open>JSON.stringify\<close>
  (without indentation) its text. A string is quoted with its double quotes and
  backslashes escaped (the configuration has no control character).
\<close>

datatype json =
    JNum int
  | JStr string
  | JArr "json list"
  | JObj "(string \<times> json) list"

definition json_escape :: "char \<Rightarrow> string" where
  "json_escape c =
     (if c = CHR 0x22 then [CHR 0x5C, CHR 0x22]
      else if c = CHR 0x5C then [CHR 0x5C, CHR 0x5C]
      else [c])"

definition json_quote :: "string \<Rightarrow> string" where
  "json_quote s = CHR 0x22 # concat (map json_escape s) @ [CHR 0x22]"

primrec JSON_stringify :: "json \<Rightarrow> string" where
  "JSON_stringify (JNum n) = show_int n"
| "JSON_stringify (JStr s) = json_quote s"
| "JSON_stringify (JArr xs) = ''['' @ join_commas (map JSON_stringify xs) @ '']''"
| "JSON_stringify (JObj kvs) =
     ''{'' @ join_commas (map (\<lambda>(k, s). json_quote k @ '':'' @ s)
                              (map (map_prod id JSON_stringify) kvs)) @ ''}''"

definition installParams :: "js_value \<Rightarrow> send_command_request" where
  "installParams instanceId =
     \<lparr>DocumentName = ''AWS-ConfigureAWSPackage'',
      InstanceIds = [instanceId],
      Parameters = [(''action'', [''Install'']), (''name'', [''AmazonCloudWatchAgent''])]\<rparr>"

definition configContent :: json where
  "configContent =
     JObj [
       (''agent'', JObj [
          (''metrics_collection_interval'', JNum 60),
          (''run_as_user'', JStr ''root'')]),
       (''metrics'', JObj [
          (''metrics_collected'', JObj [
             (''mem'', JObj [
                (''measurement'', JArr [JStr ''mem_used_percent'']),
                (''metrics_collection_interval'', JNum 60)]),
             (''swap'', JObj [
                (''measurement'', JArr [JStr ''swap_used_percent''])])]),
          (''append_dimensions'', JObj [
             (''ImageId'', JStr ''${aws:ImageId}''),
             (''InstanceId'', JStr ''${aws:InstanceId}''),
             (''InstanceType'', JStr ''${aws:InstanceType}'')])])]"

definition parameterName :: "js_value \<Rightarrow> string" where
  "parameterName instanceId = ''/cloudwatch-agent/config/'' @ template instanceId"

definition configParameter :: "js_value \<Rightarrow> put_parameter_request" where
  "configParameter instanceId =
     \<lparr>Name = parameterName instanceId,
      Type = ''String'',
      Value = JSON_stringify configContent,
      Overwrite = True\<rparr>"

definition configureParams :: "js_value \<Rightarrow> send_command_request" where
  "configureParams instanceId =
     \<lparr>DocumentName = ''AmazonCloudWatch-ManageAgent'',
      InstanceIds = [instanceId],
      Parameters = [
        (''action'', [''configure'']),
        (''mode'', [''ec2'']),
        (''optionalConfigurationSource'', [''ssm'']),
        (''optionalConfigurationLocation'', [parameterName instanceId]),
        (''optionalRestart'', [''yes''])]\<rparr>"

text \<open>\<^verbatim>\<open>result.Command?.CommandId\<close>\<close>

definition Command_CommandId :: "send_command_result \<Rightarrow> string option" where
  "Command_CommandId result = (case Command result of None \<Rightarrow> None | Some c \<Rightarrow> CommandId c)"

text \<open>
  \<^verbatim>\<open>if (result.Command?.CommandId) { await waitForCommandCompletion(...) }\<close>, lines 51
  to 53 and 109 to 111.
\<close>

definition wait_if_dispatched :: "'w services \<Rightarrow> js_value \<Rightarrow> send_command_result \<Rightarrow> ('w, unit) async" where
  "wait_if_dispatched sv instanceId result =
     (case Command_CommandId result of
        None \<Rightarrow> resolve ()
      | Some c \<Rightarrow> if c = [] then resolve () else waitForCommandCompletion sv instanceId c)"

text \<open>The \<^verbatim>\<open>console\<close> output of the source is not an effect of the model.\<close>

definition installCloudWatchAgent :: "'w services \<Rightarrow> js_value \<Rightarrow> ('w, unit) async" where
  "installCloudWatchAgent sv instanceId =
     try_catch
       (await (sendCommand sv (installParams instanceId)) (\<lambda>installResult.
        await (wait_if_dispatched sv instanceId installResult) (\<lambda>_.
        await (putParameter sv (configParameter instanceId)) (\<lambda>_.
        await (sendCommand sv (configureParams instanceId)) (\<lambda>configureResult.
        wait_if_dispatched sv instanceId configureResult)))))
       throw"

section \<open>\<^verbatim>\<open>createAlarms\<close> and \<^verbatim>\<open>deleteAlarms\<close>\<close>

definition cpuAlarm :: "js_value \<Rightarrow> string \<Rightarrow> put_metric_alarm_request" where
  "cpuAlarm instanceId snsTopicArn =
     \<lparr>AlarmName = ''CPU-High-'' @ template instanceId,
      MetricName = ''CPUUtilization'',
      Namespace = ''AWS/EC2'',
      Period = 60,
      EvaluationPeriods = 1,
      DatapointsToAlarm = 1,
      Threshold = 80,
      ActionsEnabled = True,
      AlarmActions = [snsTopicArn],
      ComparisonOperator = ''GreaterThanThreshold'',
      TreatMissingData = ''missing'',
      Statistic = ''Average'',
      Dimensions = [(''InstanceId'', instanceId)],
      AlarmDescription =
        ''CPU utilization is high for instance '' @ template instanceId @ '' (>80% for 1 minute)''\<rparr>"

definition memoryAlarm :: "js_value \<Rightarrow> InstanceInfo \<Rightarrow> string \<Rightarrow> put_metric_alarm_request" where
  "memoryAlarm instanceId instanceInfo snsTopicArn =
     \<lparr>AlarmName = ''Memory-High-'' @ template instanceId,
      MetricName = ''mem_used_percent'',
      Namespace = ''CWAgent'',
      Period = 60,
      EvaluationPeriods = 1,
      DatapointsToAlarm = 1,
      Threshold = 75,
      ActionsEnabled = True,
      AlarmActions = [snsTopicArn],
      ComparisonOperator = ''GreaterThanThreshold'',
      TreatMissingData = ''missing'',
      Statistic = ''Average'',
      Dimensions = [
        (''InstanceId'', instanceId),
        (''InstanceType'', JSStr (instanceType instanceInfo)),
        (''ImageId'', JSStr (imageId instanceInfo))],
      AlarmDescription =
        ''Memory utilization is high for instance '' @ template instanceId @ '' (>75% for 1 minute)''\<rparr>"

definition createAlarms :: "'w services \<Rightarrow> js_value \<Rightarrow> string \<Rightarrow> ('w, unit) async" where
  "createAlarms sv instanceId snsTopicArn =
     try_catch
       (await (getInstanceInfo sv instanceId) (\<lambda>instanceInfo.
        await (putMetricAlarm sv (cpuAlarm instanceId snsTopicArn)) (\<lambda>_.
        putMetricAlarm sv (memoryAlarm instanceId instanceInfo snsTopicArn))))
       throw"

definition deleteAlarms :: "'w services \<Rightarrow> js_value \<Rightarrow> ('w, unit) async" where
  "deleteAlarms sv instanceId =
     try_catch
       (deleteAlarms_call sv
          [''CPU-High-'' @ template instanceId, ''Memory-High-'' @ template instanceId])
       throw"

section \<open>\<^verbatim>\<open>handler\<close>\<close>

text \<open>The \<^verbatim>\<open>try\<close> statement of lines 263 to 277.\<close>

definition dispatch :: "'w services \<Rightarrow> string \<Rightarrow> js_value \<Rightarrow> js_value \<Rightarrow> ('w, unit) async" where
  "dispatch sv snsTopicArn instanceId state =
     try_catch
       (if state = JSStr ''running'' then
          await (installCloudWatchAgent sv instanceId) (\<lambda>_.
          createAlarms sv instanceId snsTopicArn)
        else if state = JSStr ''terminated'' then deleteAlarms sv instanceId
        else resolve ())
       throw"

text \<open>
  Lines 241 to 259: the checks before the first effect. The first argument is
  \<^verbatim>\<open>process.env.SNS_TOPIC_ARN\<close> (a string, or undefined); the result is what the
  rest of the handler uses: \<^verbatim>\<open>snsTopicArn\<close>, \<^verbatim>\<open>instanceId\<close> and \<^verbatim>\<open>state\<close>.
\<close>

definition validate :: "string option \<Rightarrow> js_value \<Rightarrow> thrown + (string \<times> js_value \<times> js_value)" where
  "validate SNS_TOPIC_ARN event =
     (case SNS_TOPIC_ARN of
        None \<Rightarrow> Inl (Error ''SNS_TOPIC_ARN environment variable is not set'')
      | Some snsTopicArn \<Rightarrow>
          if snsTopicArn = [] then Inl (Error ''SNS_TOPIC_ARN environment variable is not set'')
          else
            (case get_prop event ''detail'' of
               Inl e \<Rightarrow> Inl e
             | Inr detail \<Rightarrow>
                 if \<not> truthy detail \<or> \<not> typeof_object detail then
                   Inl (Error ''Invalid event structure: missing or invalid detail object'')
                 else
                   (case get_prop detail ''instance-id'' of
                      Inl e \<Rightarrow> Inl e
                    | Inr instanceId \<Rightarrow>
                        if \<not> truthy instanceId then
                          Inl (Error ''Invalid event structure: missing instance-id'')
                        else
                          (case get_prop detail ''state'' of
                             Inl e \<Rightarrow> Inl e
                           | Inr state \<Rightarrow>
                               if \<not> truthy state then
                                 Inl (Error ''Invalid event structure: missing state'')
                               else Inr (snsTopicArn, instanceId, state)))))"

text \<open>
  Line 261: the template literal of the log line converts \<^verbatim>\<open>instanceId\<close>, then
  \<^verbatim>\<open>state\<close>, to strings, after the checks and before the \<^verbatim>\<open>try\<close>. Where a
  conversion throws, the handler throws. The later template literals convert
  the same values again, so they do not throw; the functions called declare
  \<^verbatim>\<open>instanceId: string\<close> and use \<open>template\<close>.
\<close>

definition processing_message :: "js_value \<Rightarrow> js_value \<Rightarrow> thrown + string" where
  "processing_message instanceId state =
     (case to_string instanceId of
        Inl e \<Rightarrow> Inl e
      | Inr a \<Rightarrow>
          (case to_string state of
             Inl e \<Rightarrow> Inl e
           | Inr b \<Rightarrow> Inr (''Processing EC2 instance '' @ a @ '' in state '' @ b)))"

definition handler :: "'w services \<Rightarrow> string option \<Rightarrow> js_value \<Rightarrow> ('w, unit) async" where
  "handler sv SNS_TOPIC_ARN event =
     (case validate SNS_TOPIC_ARN event of
        Inl e \<Rightarrow> throw e
      | Inr (snsTopicArn, instanceId, state) \<Rightarrow>
          (case processing_message instanceId state of
             Inl e \<Rightarrow> throw e
           | Inr line \<Rightarrow> dispatch sv snsTopicArn instanceId state))"

section \<open>Vocabulary for runs\<close>

text \<open>The two tests of lines 135 and 139 on a polled result.\<close>

definition succeeded :: "get_command_invocation_result \<Rightarrow> bool" where
  "succeeded result = (status_or_empty result \<in> set [''Success'', ''Complete''])"

definition failed :: "get_command_invocation_result \<Rightarrow> bool" where
  "failed result = (status_or_empty result \<in> set [''Failed'', ''Cancelled'', ''TimedOut''])"

text \<open>A status poll.\<close>

fun is_poll :: "event \<Rightarrow> bool" where
  "is_poll (Remote (GetCommandInvocation c i) rep) = True"
| "is_poll _ = False"

text \<open>
  A transient reply to a status poll: a status that is neither a success nor a
  failure, or the error \<^verbatim>\<open>InvocationDoesNotExist\<close>.
\<close>

fun transient :: "reply \<Rightarrow> bool" where
  "transient (Invocation result) = (\<not> succeeded result \<and> \<not> failed result)"
| "transient (Rejected e) = is_InvocationDoesNotExist e"
| "transient _ = False"

text \<open>
  The events of provisioning: timer waits, command dispatches, status polls and
  parameter writes. The other remote calls are those of the alarms.
\<close>

fun provisioning :: "event \<Rightarrow> bool" where
  "provisioning (Sleep ms) = True"
| "provisioning (Remote (SendCommand req) rep) = True"
| "provisioning (Remote (GetCommandInvocation c i) rep) = True"
| "provisioning (Remote (PutParameter req) rep) = True"
| "provisioning _ = False"

section \<open>A reference cloud\<close>

text \<open>
  A test double for the collaborators: it answers \<^verbatim>\<open>describeInstances\<close> and
  \<^verbatim>\<open>sendCommand\<close> with fixed replies, answers the status polls from a queue (an
  empty queue answers \<^verbatim>\<open>InProgress\<close>), keeps the parameters and the alarms it is
  given, up to a limit on the number of alarms, and counts the milliseconds
  waited.
\<close>

record cloud =
  described :: "thrown + describe_instances_result"
  dispatched :: "thrown + send_command_result"
  invocations :: "(thrown + get_command_invocation_result) list"
  parameters :: "(string \<times> string) list"
  alarms :: "put_metric_alarm_request list"
  alarm_limit :: nat
  clock :: nat

definition reference_cloud :: "cloud services" where
  "reference_cloud =
     \<lparr>ec2_describeInstances = (\<lambda>ids w. (described w, w)),
      ssm_sendCommand = (\<lambda>req w. (dispatched w, w)),
      ssm_getCommandInvocation = (\<lambda>commandId instanceId w.
        case invocations w of
          [] \<Rightarrow> (Inr \<lparr>Status = Some ''InProgress'', StandardErrorContent = None\<rparr>, w)
        | r # rs \<Rightarrow> (r, w\<lparr>invocations := rs\<rparr>)),
      ssm_putParameter = (\<lambda>req w.
        (Inr (), w\<lparr>parameters := (Name req, Value req) # filter (\<lambda>p. fst p \<noteq> Name req) (parameters w)\<rparr>)),
      cloudwatch_putMetricAlarm = (\<lambda>req w.
        if length (filter (\<lambda>a. AlarmName a \<noteq> AlarmName req) (alarms w)) < alarm_limit w then
          (Inr (), w\<lparr>alarms := req # filter (\<lambda>a. AlarmName a \<noteq> AlarmName req) (alarms w)\<rparr>)
        else (Inl (AWSError (Some ''LimitExceeded'') (Some ''Alarm quota reached'')), w)),
      cloudwatch_deleteAlarms = (\<lambda>names w.
        (Inr (), w\<lparr>alarms := filter (\<lambda>a. AlarmName a \<notin> set names) (alarms w)\<rparr>)),
      setTimeout = (\<lambda>ms w. w\<lparr>clock := clock w + ms\<rparr>)\<rparr>"

definition a_running_instance :: describe_instances_result where
  "a_running_instance =
     \<lparr>Reservations = Some [\<lparr>Instances = Some [\<lparr>InstanceType = Some ''t3.micro'', ImageId = Some ''ami-0abc''\<rparr>]\<rparr>]\<rparr>"

definition succeeding_cloud :: cloud where
  "succeeding_cloud =
     \<lparr>described = Inr a_running_instance,
      dispatched = Inr \<lparr>Command = Some \<lparr>CommandId = Some ''cmd-1''\<rparr>\<rparr>,
      invocations = [
        Inr \<lparr>Status = Some ''Success'', StandardErrorContent = None\<rparr>,
        Inr \<lparr>Status = Some ''Success'', StandardErrorContent = None\<rparr>],
      parameters = [],
      alarms = [],
      alarm_limit = 5000,
      clock = 0\<rparr>"

definition alarm_names :: "cloud \<Rightarrow> string set" where
  "alarm_names w = AlarmName ` set (alarms w)"

text \<open>A cloud whose dispatch replies carry no command.\<close>

definition silent_cloud :: cloud where
  "silent_cloud = succeeding_cloud\<lparr>dispatched := Inr \<lparr>Command = None\<rparr>\<rparr>"

text \<open>A cloud that throttles the first status poll.\<close>

definition throttling_cloud :: cloud where
  "throttling_cloud =
     succeeding_cloud\<lparr>invocations := [Inl (AWSError (Some ''ThrottlingException'') (Some ''Rate exceeded''))]\<rparr>"

text \<open>
  A cloud where the invocation is not visible at the first poll and the command
  never leaves \<^verbatim>\<open>InProgress\<close> after that.
\<close>

definition stuck_cloud :: cloud where
  "stuck_cloud =
     succeeding_cloud\<lparr>invocations := [Inl (AWSError (Some ''InvocationDoesNotExist'') None)]\<rparr>"

text \<open>A cloud where the install command fails.\<close>

definition failing_cloud :: cloud where
  "failing_cloud =
     succeeding_cloud\<lparr>invocations := [Inr \<lparr>Status = Some ''Failed'', StandardErrorContent = Some ''exit 1''\<rparr>]\<rparr>"

text \<open>
  A cloud where the invocation is not visible at the first poll and the second
  poll is throttled.
\<close>

definition flaky_cloud :: cloud where
  "flaky_cloud =
     succeeding_cloud\<lparr>invocations := [
       Inl (AWSError (Some ''InvocationDoesNotExist'') None),
       Inl (AWSError (Some ''ThrottlingException'') (Some ''Rate exceeded''))]\<rparr>"

text \<open>A cloud whose alarm quota is used up.\<close>

definition full_cloud :: cloud where
  "full_cloud = succeeding_cloud\<lparr>alarm_limit := 0\<rparr>"

text \<open>A cloud that holds the two alarms of one instance and an alarm of another.\<close>

definition monitored_cloud :: cloud where
  "monitored_cloud =
     succeeding_cloud\<lparr>alarms :=
       [memoryAlarm (JSStr ''i-123'') \<lparr>instanceType = ''t3.micro'', imageId = ''ami-0abc''\<rparr>
          ''arn:aws:sns:alerts'',
        cpuAlarm (JSStr ''i-123'') ''arn:aws:sns:alerts'',
        cpuAlarm (JSStr ''i-999'') ''arn:aws:sns:alerts'']\<rparr>"

text \<open>The inbound event of section 6 of the specification.\<close>

definition lifecycle_event :: "js_value \<Rightarrow> js_value \<Rightarrow> js_value" where
  "lifecycle_event instanceId state =
     JSObj [(''detail'', JSObj [(''instance-id'', instanceId), (''state'', state)])]"

section \<open>Runs of the waiter\<close>

lemma try_catch_throw: "try_catch m throw = m"
  by (rule ext) (simp add: try_catch_def throw_def split: prod.splits sum.splits)

lemma failed_not_succeeded: "failed result \<Longrightarrow> \<not> succeeded result"
  by (auto simp: failed_def succeeded_def)

text \<open>One iteration of the loop, by the reply to its poll.\<close>

lemma attempt_eq:
  "attempt sv i c w =
     (case ssm_getCommandInvocation sv c i w of
        (Inr result, w1) \<Rightarrow>
          if succeeded result then
            (Inr True, [Remote (GetCommandInvocation c i) (Invocation result)], w1)
          else if failed result then
            (Inl (command_failed result), [Remote (GetCommandInvocation c i) (Invocation result)], w1)
          else
            (Inr False, [Remote (GetCommandInvocation c i) (Invocation result), Sleep 10000],
             setTimeout sv 10000 w1)
      | (Inl e, w1) \<Rightarrow>
          if is_InvocationDoesNotExist e then
            (Inr False, [Remote (GetCommandInvocation c i) (Rejected e), Sleep 10000],
             setTimeout sv 10000 w1)
          else (Inl e, [Remote (GetCommandInvocation c i) (Rejected e)], w1))"
  by (simp add: attempt_def try_catch_def try_block_def catch_block_def await_def
      getCommandInvocation_def remote_def sleep_def resolve_def throw_def command_failed_def
      succeeded_def failed_def
      split: prod.splits sum.splits)

text \<open>
  Every run of the loop is built from six steps: the budget is spent, a poll
  ends the loop (success, failure, another error), or a poll is transient and the
  loop goes on after the wait with one more attempt counted.
\<close>

lemma wait_loop_runs [consumes 1, case_names timeout success failure error pending unseen]:
  assumes run: "wait_loop sv i c a w = (r, evs, w')"
    and timeout: "\<And>a. \<not> a < maxAttempts \<Longrightarrow> P a (Inl command_timed_out) []"
    and success: "\<And>a result. a < maxAttempts \<Longrightarrow> succeeded result \<Longrightarrow>
        P a (Inr ()) [Remote (GetCommandInvocation c i) (Invocation result)]"
    and failure: "\<And>a result. a < maxAttempts \<Longrightarrow> \<not> succeeded result \<Longrightarrow> failed result \<Longrightarrow>
        P a (Inl (command_failed result)) [Remote (GetCommandInvocation c i) (Invocation result)]"
    and error: "\<And>a e. a < maxAttempts \<Longrightarrow> \<not> is_InvocationDoesNotExist e \<Longrightarrow>
        P a (Inl e) [Remote (GetCommandInvocation c i) (Rejected e)]"
    and pending: "\<And>a result r evs. a < maxAttempts \<Longrightarrow> \<not> succeeded result \<Longrightarrow>
        \<not> failed result \<Longrightarrow> P (a + 1) r evs \<Longrightarrow>
        P a r (Remote (GetCommandInvocation c i) (Invocation result) # Sleep 10000 # evs)"
    and unseen: "\<And>a e r evs. a < maxAttempts \<Longrightarrow> is_InvocationDoesNotExist e \<Longrightarrow>
        P (a + 1) r evs \<Longrightarrow>
        P a r (Remote (GetCommandInvocation c i) (Rejected e) # Sleep 10000 # evs)"
  shows "P a r evs"
  using run
proof (induction "maxAttempts - a" arbitrary: a w r evs w')
  case 0
  then have "\<not> a < maxAttempts" by simp
  with "0.prems" timeout show ?case
    by (auto simp: throw_def)
next
  case (Suc n)
  then have lt: "a < maxAttempts" by simp
  obtain q w1 where poll: "ssm_getCommandInvocation sv c i w = (q, w1)"
    by (cases "ssm_getCommandInvocation sv c i w")
  have step: "P (a + 1) r2 evs2"
    if "wait_loop sv i c (a + 1) w0 = (r2, evs2, w2)" for w0 r2 evs2 w2
    using Suc.hyps(1)[of "a + 1", OF _ that] Suc.hyps(2) by simp
  show ?case
  proof (cases q)
    case (Inr result)
    consider "succeeded result" | "\<not> succeeded result" "failed result"
      | "\<not> succeeded result" "\<not> failed result" by blast
    then show ?thesis
    proof cases
      case 1
      with Suc.prems lt poll Inr success[of a result] show ?thesis
        by (auto simp: attempt_eq)
    next
      case 2
      with Suc.prems lt poll Inr failure[of a result] show ?thesis
        by (auto simp: attempt_eq)
    next
      case 3
      obtain r2 evs2 w2 where rec:
        "wait_loop sv i c (a + 1) (setTimeout sv 10000 w1) = (r2, evs2, w2)"
        by (cases "wait_loop sv i c (a + 1) (setTimeout sv 10000 w1)")
      have "P a r2 (Remote (GetCommandInvocation c i) (Invocation result) # Sleep 10000 # evs2)"
        using pending[OF lt _ _ step[OF rec]] 3 by simp
      with Suc.prems lt poll Inr rec 3 show ?thesis
        by (auto simp: attempt_eq)
    qed
  next
    case (Inl e)
    show ?thesis
    proof (cases "is_InvocationDoesNotExist e")
      case False
      with Suc.prems lt poll Inl error[of a e] show ?thesis
        by (auto simp: attempt_eq)
    next
      case True
      obtain r2 evs2 w2 where rec:
        "wait_loop sv i c (a + 1) (setTimeout sv 10000 w1) = (r2, evs2, w2)"
        by (cases "wait_loop sv i c (a + 1) (setTimeout sv 10000 w1)")
      have "P a r2 (Remote (GetCommandInvocation c i) (Rejected e) # Sleep 10000 # evs2)"
        using unseen[OF lt True step[OF rec]] by simp
      with Suc.prems lt poll Inl rec True show ?thesis
        by (auto simp: attempt_eq)
    qed
  qed
qed

lemma wait_loop_budget:
  assumes "wait_loop sv i c a w = (r, evs, w')"
  shows "length (filter is_poll evs) \<le> maxAttempts - a"
  using assms by (induction rule: wait_loop_runs) auto

lemma wait_loop_events:
  assumes "wait_loop sv i c a w = (r, evs, w')"
  shows "\<forall>e \<in> set evs. e = Sleep 10000 \<or> (\<exists>rep. e = Remote (GetCommandInvocation c i) rep)"
  using assms by (induction rule: wait_loop_runs) auto

lemma wait_loop_exhausted:
  assumes "wait_loop sv i c a w = (r, evs, w')"
    and "\<forall>cl rep. Remote cl rep \<in> set evs \<longrightarrow> transient rep"
  shows "r = Inl command_timed_out \<and> length (filter is_poll evs) = maxAttempts - a
    \<and> length (filter (\<lambda>e. e = Sleep 10000) evs) = maxAttempts - a"
  using assms by (induction rule: wait_loop_runs) (auto simp: failed_not_succeeded)

lemma wait_loop_spent:
  assumes "wait_loop sv i c a w = (r, evs, w')"
    and "evs = [] \<or> last evs = Sleep 10000"
  shows "r = Inl command_timed_out \<and> length (filter is_poll evs) = maxAttempts - a"
  using assms by (induction rule: wait_loop_runs) (auto split: if_splits)

lemma wait_loop_success:
  assumes "wait_loop sv i c a w = (r, evs, w')"
  shows "(r = Inr ()) =
    (\<exists>cl result. Remote cl (Invocation result) \<in> set evs \<and> succeeded result)"
  using assms
  by (induction rule: wait_loop_runs) (auto simp: command_timed_out_def failed_not_succeeded)

lemma wait_loop_success_last:
  assumes "wait_loop sv i c a w = (r, evs, w')"
    and "Remote cl (Invocation result) \<in> set evs" and "succeeded result"
  shows "last evs = Remote cl (Invocation result)"
  using assms by (induction rule: wait_loop_runs) (auto simp: failed_not_succeeded)

lemma wait_loop_failure:
  assumes "wait_loop sv i c a w = (r, evs, w')"
    and "Remote cl (Invocation result) \<in> set evs" and "failed result"
  shows "r = Inl (command_failed result) \<and> last evs = Remote cl (Invocation result)"
  using assms by (induction rule: wait_loop_runs) (auto simp: failed_not_succeeded)

lemma wait_loop_error:
  assumes "wait_loop sv i c a w = (r, evs, w')"
    and "Remote cl (Rejected e) \<in> set evs" and "\<not> is_InvocationDoesNotExist e"
  shows "r = Inl e \<and> last evs = Remote cl (Rejected e)"
  using assms by (induction rule: wait_loop_runs) auto

lemma wait_loop_first:
  assumes "wait_loop sv i c 0 w = (r, evs, w')"
  shows "\<exists>rep rest. evs = Remote (GetCommandInvocation c i) rep # rest"
proof -
  have "a < maxAttempts \<longrightarrow> (\<exists>rep rest. evs = Remote (GetCommandInvocation c i) rep # rest)"
    if "wait_loop sv i c a w = (r, evs, w')" for a
    using that by (induction rule: wait_loop_runs) auto
  from this[OF assms] show ?thesis by (simp add: maxAttempts_def)
qed

lemma retry_cons:
  assumes nil: "evs = [] \<longrightarrow> r = Inl command_timed_out"
    and hd: "evs \<noteq> [] \<longrightarrow> (\<exists>rep' rest. evs = Remote (GetCommandInvocation c i) rep' # rest)"
    and tl: "\<forall>pre cl rep post. evs = pre @ Remote cl rep # post \<longrightarrow> transient rep \<longrightarrow>
      (\<exists>post'. post = Sleep 10000 # post' \<and>
         (if post' = [] then r = Inl command_timed_out
          else \<exists>rep' rest. post' = Remote (GetCommandInvocation c i) rep' # rest))"
    and eq: "p # Sleep 10000 # evs = pre @ Remote cl rep # post"
    and tr: "transient rep"
  shows "\<exists>post'. post = Sleep 10000 # post' \<and>
         (if post' = [] then r = Inl command_timed_out
          else \<exists>rep' rest. post' = Remote (GetCommandInvocation c i) rep' # rest)"
proof (cases pre)
  case Nil
  with eq have "post = Sleep 10000 # evs" by simp
  with nil hd show ?thesis by auto
next
  case (Cons x pre')
  with eq have eq': "Sleep 10000 # evs = pre' @ Remote cl rep # post" by simp
  show ?thesis
  proof (cases pre')
    case Nil
    with eq' show ?thesis by simp
  next
    case (Cons y pre'')
    with eq' have "evs = pre'' @ Remote cl rep # post" by simp
    with tl tr show ?thesis by blast
  qed
qed

lemma single_eq_append:
  "([x] = pre @ y # post) = (pre = [] \<and> post = [] \<and> x = y)"
  by (cases pre) auto

lemma wait_loop_retry:
  assumes "wait_loop sv i c a w = (r, evs, w')"
  shows "(evs = [] \<longrightarrow> r = Inl command_timed_out) \<and>
    (evs \<noteq> [] \<longrightarrow> (\<exists>rep' rest. evs = Remote (GetCommandInvocation c i) rep' # rest)) \<and>
    (\<forall>pre cl rep post. evs = pre @ Remote cl rep # post \<longrightarrow> transient rep \<longrightarrow>
      (\<exists>post'. post = Sleep 10000 # post' \<and>
         (if post' = [] then r = Inl command_timed_out
          else \<exists>rep' rest. post' = Remote (GetCommandInvocation c i) rep' # rest)))"
  using assms
proof (induction rule: wait_loop_runs)
  case (timeout a)
  show ?case by simp
next
  case (success a result)
  then show ?case by (simp add: single_eq_append)
next
  case (failure a result)
  then show ?case by (simp add: single_eq_append)
next
  case (error a e)
  then show ?case by (simp add: single_eq_append)
next
  case (pending a result r evs)
  note nil = conjunct1[OF pending(4)]
    and hd = conjunct1[OF conjunct2[OF pending(4)]]
    and tl = conjunct2[OF conjunct2[OF pending(4)]]
  show ?case
  proof (intro conjI allI impI)
    fix pre cl rep post
    assume "Remote (GetCommandInvocation c i) (Invocation result) # Sleep 10000 # evs
        = pre @ Remote cl rep # post" and "transient rep"
    then show "\<exists>post'. post = Sleep 10000 # post' \<and>
         (if post' = [] then r = Inl command_timed_out
          else \<exists>rep' rest. post' = Remote (GetCommandInvocation c i) rep' # rest)"
      by (rule retry_cons[OF nil hd tl])
  qed simp_all
next
  case (unseen a e r evs)
  note nil = conjunct1[OF unseen(3)]
    and hd = conjunct1[OF conjunct2[OF unseen(3)]]
    and tl = conjunct2[OF conjunct2[OF unseen(3)]]
  show ?case
  proof (intro conjI allI impI)
    fix pre cl rep post
    assume "Remote (GetCommandInvocation c i) (Rejected e) # Sleep 10000 # evs
        = pre @ Remote cl rep # post" and "transient rep"
    then show "\<exists>post'. post = Sleep 10000 # post' \<and>
         (if post' = [] then r = Inl command_timed_out
          else \<exists>rep' rest. post' = Remote (GetCommandInvocation c i) rep' # rest)"
      by (rule retry_cons[OF nil hd tl])
  qed simp_all
qed

lemma command_failed_not_timed_out: "command_failed result \<noteq> command_timed_out"
  by (simp add: command_failed_def command_timed_out_def)

lemma command_timed_out_eq: "command_timed_out = Error ''Command timed out after 300 seconds''"
  by (simp add: command_timed_out_def maxAttempts_def)

lemma command_failed_eq:
  "failed result \<Longrightarrow> command_failed result =
     Error (''Command failed with status '' @ status_or_empty result @ '': '' @
            template_opt (StandardErrorContent result))"
  by (auto simp: command_failed_def failed_def status_or_empty_def split: option.splits)

lemma waitForCommandCompletion_eq:
  "waitForCommandCompletion sv i c w =
     (case wait_loop sv i c 0 (setTimeout sv 5000 w) of (r, evs, w') \<Rightarrow> (r, Sleep 5000 # evs, w'))"
  by (simp add: waitForCommandCompletion_def await_def sleep_def)

lemma waitForCommandCompletion_loop:
  assumes "waitForCommandCompletion sv i c w = (r, evs, w')"
  obtains evs0 where "evs = Sleep 5000 # evs0"
    and "wait_loop sv i c 0 (setTimeout sv 5000 w) = (r, evs0, w')"
  using assms by (auto simp: waitForCommandCompletion_eq split: prod.splits)

lemmas run_defs = waitForCommandCompletion_def await_def sleep_def attempt_def try_catch_def
  try_block_def catch_block_def getCommandInvocation_def remote_def resolve_def throw_def
  reference_cloud_def status_or_empty_def command_failed_def maxAttempts_def

section \<open>The claims about the waiter\<close>

text \<open>
  C2. Every run of the waiter: it returns success exactly when its last event is
  a poll whose status is \<^verbatim>\<open>Success\<close> or \<^verbatim>\<open>Complete\<close>, and a poll with such a status
  ends the run with success. A poll whose status is \<^verbatim>\<open>Failed\<close>, \<^verbatim>\<open>Cancelled\<close> or
  \<^verbatim>\<open>TimedOut\<close> ends the run at once (it is the last event: no wait, no further
  poll) with the error \<^verbatim>\<open>Command failed with status <status>: <error content>\<close>,
  which is not the timeout error.
\<close>

theorem waiter_terminal_status:
  assumes "waitForCommandCompletion sv i c w = (r, evs, w')"
  shows "((r = Inr ()) =
           (\<exists>result. last evs = Remote (GetCommandInvocation c i) (Invocation result) \<and>
              status_or_empty result \<in> {''Success'', ''Complete''})) \<and>
         (\<forall>cl result. Remote cl (Invocation result) \<in> set evs \<and>
              status_or_empty result \<in> {''Success'', ''Complete''} \<longrightarrow>
            r = Inr () \<and> last evs = Remote cl (Invocation result)) \<and>
         (\<forall>cl result. Remote cl (Invocation result) \<in> set evs \<and>
              status_or_empty result \<in> {''Failed'', ''Cancelled'', ''TimedOut''} \<longrightarrow>
            r = Inl (Error (''Command failed with status '' @ status_or_empty result @ '': '' @
                            template_opt (StandardErrorContent result))) \<and>
            last evs = Remote cl (Invocation result) \<and>
            r \<noteq> Inl (Error ''Command timed out after 300 seconds''))"
proof -
  from assms obtain evs0 where evs: "evs = Sleep 5000 # evs0"
    and loop: "wait_loop sv i c 0 (setTimeout sv 5000 w) = (r, evs0, w')"
    by (rule waitForCommandCompletion_loop)
  have mem: "Remote cl rep \<in> set evs \<longleftrightarrow> Remote cl rep \<in> set evs0" for cl rep
    by (simp add: evs)
  have lst: "last evs = last evs0" if "evs0 \<noteq> []"
    using that by (simp add: evs)
  have ok: "r = Inr () \<and> last evs = Remote cl (Invocation result)"
    if "Remote cl (Invocation result) \<in> set evs" "succeeded result" for cl result
  proof -
    from that have m: "Remote cl (Invocation result) \<in> set evs0" by (simp add: mem)
    with wait_loop_success[OF loop] that(2) have "r = Inr ()" by blast
    moreover from m have "evs0 \<noteq> []" by auto
    with wait_loop_success_last[OF loop m that(2)] have "last evs = Remote cl (Invocation result)"
      by (simp add: lst)
    ultimately show ?thesis by simp
  qed
  have ko: "r = Inl (command_failed result) \<and> last evs = Remote cl (Invocation result)"
    if "Remote cl (Invocation result) \<in> set evs" "failed result" for cl result
  proof -
    from that have m: "Remote cl (Invocation result) \<in> set evs0" by (simp add: mem)
    from m have "evs0 \<noteq> []" by auto
    with wait_loop_failure[OF loop m that(2)] show ?thesis
      by (simp add: lst)
  qed
  have cls: "\<exists>rep. e = Remote (GetCommandInvocation c i) rep" if "e \<in> set evs0" "e \<noteq> Sleep 10000" for e
    using wait_loop_events[OF loop] that by blast
  have iff: "(r = Inr ()) =
     (\<exists>result. last evs = Remote (GetCommandInvocation c i) (Invocation result) \<and> succeeded result)"
  proof
    assume "r = Inr ()"
    with wait_loop_success[OF loop] obtain cl result
      where m: "Remote cl (Invocation result) \<in> set evs0" and s: "succeeded result" by blast
    from cls[OF m] have "cl = GetCommandInvocation c i" by simp
    with ok[of cl result] m s show "\<exists>result. last evs = Remote (GetCommandInvocation c i) (Invocation result) \<and> succeeded result"
      by (auto simp: mem)
  next
    assume "\<exists>result. last evs = Remote (GetCommandInvocation c i) (Invocation result) \<and> succeeded result"
    then obtain result where l: "last evs = Remote (GetCommandInvocation c i) (Invocation result)"
      and s: "succeeded result" by blast
    from l have "evs0 \<noteq> []" by (auto simp: evs)
    with l have "Remote (GetCommandInvocation c i) (Invocation result) \<in> set evs0"
      using last_in_set[of evs0] by (simp add: lst)
    with wait_loop_success[OF loop] s show "r = Inr ()" by blast
  qed
  show ?thesis
    using iff ok ko command_failed_not_timed_out
    by (auto simp: succeeded_def failed_def command_failed_eq command_timed_out_eq)
qed

text \<open>
  The run of Scenario B's waiter: one poll answers \<^verbatim>\<open>Failed\<close> with the error content
  \<^verbatim>\<open>exit 1\<close>.
\<close>

theorem waiter_terminal_status_witness:
  "waitForCommandCompletion reference_cloud (JSStr ''i-123'') ''cmd-1'' failing_cloud =
     (Inl (Error ''Command failed with status Failed: exit 1''),
      [Sleep 5000,
       Remote (GetCommandInvocation ''cmd-1'' (JSStr ''i-123''))
         (Invocation \<lparr>Status = Some ''Failed'', StandardErrorContent = Some ''exit 1''\<rparr>)],
      failing_cloud\<lparr>invocations := [], clock := 5000\<rparr>) \<and>
   Inl (Error ''Command failed with status Failed: exit 1'') \<noteq>
     (Inl (Error ''Command timed out after 300 seconds'') :: thrown + unit)"
proof -
  have run: "waitForCommandCompletion reference_cloud (JSStr ''i-123'') ''cmd-1'' failing_cloud =
     (Inl (Error ''Command failed with status Failed: exit 1''),
      [Sleep 5000,
       Remote (GetCommandInvocation ''cmd-1'' (JSStr ''i-123''))
         (Invocation \<lparr>Status = Some ''Failed'', StandardErrorContent = Some ''exit 1''\<rparr>)],
      failing_cloud\<lparr>invocations := [], clock := 5000\<rparr>)"
    by (simp add: run_defs failing_cloud_def succeeding_cloud_def)
  from waiter_terminal_status[OF run] run show ?thesis
    by simp
qed

text \<open>
  C3. Every run of the waiter starts with the wait of 5000 ms, followed by the
  first poll; it makes at most 30 polls, whatever their replies (a poll answered
  \<^verbatim>\<open>InvocationDoesNotExist\<close> is one of them); every later wait is of 10000 ms;
  and when every poll of the run is transient, the run makes exactly 30 polls,
  each followed by its wait, and fails with
  \<^verbatim>\<open>Command timed out after 300 seconds\<close>.
\<close>

theorem waiter_budget:
  assumes "waitForCommandCompletion sv i c w = (r, evs, w')"
  shows "maxAttempts = 30 \<and>
         (\<exists>rep rest. evs = Sleep 5000 # Remote (GetCommandInvocation c i) rep # rest) \<and>
         length (filter is_poll evs) \<le> 30 \<and>
         (\<forall>e \<in> set (tl evs). e = Sleep 10000 \<or> (\<exists>rep. e = Remote (GetCommandInvocation c i) rep)) \<and>
         ((\<forall>cl rep. Remote cl rep \<in> set evs \<longrightarrow> transient rep) \<longrightarrow>
            r = Inl (Error ''Command timed out after 300 seconds'') \<and>
            length (filter is_poll evs) = 30 \<and>
            length (filter (\<lambda>e. e = Sleep 10000) evs) = 30)"
proof -
  from assms obtain evs0 where evs: "evs = Sleep 5000 # evs0"
    and loop: "wait_loop sv i c 0 (setTimeout sv 5000 w) = (r, evs0, w')"
    by (rule waitForCommandCompletion_loop)
  from wait_loop_first[OF loop] have first: "\<exists>rep rest. evs = Sleep 5000 # Remote (GetCommandInvocation c i) rep # rest"
    by (simp add: evs)
  from wait_loop_budget[OF loop] have budget: "length (filter is_poll evs) \<le> 30"
    by (simp add: evs maxAttempts_def)
  from wait_loop_events[OF loop]
  have events: "\<forall>e \<in> set (tl evs). e = Sleep 10000 \<or> (\<exists>rep. e = Remote (GetCommandInvocation c i) rep)"
    by (simp add: evs)
  have spent: "r = Inl (Error ''Command timed out after 300 seconds'') \<and>
      length (filter is_poll evs) = 30 \<and> length (filter (\<lambda>e. e = Sleep 10000) evs) = 30"
    if "\<forall>cl rep. Remote cl rep \<in> set evs \<longrightarrow> transient rep"
  proof -
    from that have "\<forall>cl rep. Remote cl rep \<in> set evs0 \<longrightarrow> transient rep"
      by (simp add: evs)
    from wait_loop_exhausted[OF loop this] show ?thesis
      by (simp add: evs maxAttempts_def command_timed_out_eq)
  qed
  from first budget events spent show ?thesis
    by (simp add: maxAttempts_def)
qed

text \<open>
  A command that is not visible at the first poll and stays in progress: 30
  polls, 305 seconds of waiting, then the timeout.
\<close>

theorem waiter_budget_witness:
  "fst (waitForCommandCompletion reference_cloud (JSStr ''i-123'') ''cmd-1'' stuck_cloud) =
     Inl (Error ''Command timed out after 300 seconds'') \<and>
   length (filter is_poll
     (fst (snd (waitForCommandCompletion reference_cloud (JSStr ''i-123'') ''cmd-1'' stuck_cloud)))) = 30 \<and>
   length (filter (\<lambda>e. e = Sleep 10000)
     (fst (snd (waitForCommandCompletion reference_cloud (JSStr ''i-123'') ''cmd-1'' stuck_cloud)))) = 30 \<and>
   hd (fst (snd (waitForCommandCompletion reference_cloud (JSStr ''i-123'') ''cmd-1'' stuck_cloud))) =
     Sleep 5000 \<and>
   clock (snd (snd (waitForCommandCompletion reference_cloud (JSStr ''i-123'') ''cmd-1'' stuck_cloud))) =
     305000"
proof -
  let ?run = "waitForCommandCompletion reference_cloud (JSStr ''i-123'') ''cmd-1'' stuck_cloud"
  have run: "?run = (fst ?run, fst (snd ?run), snd (snd ?run))"
    by simp
  have all: "\<forall>cl rep. Remote cl rep \<in> set (fst (snd ?run)) \<longrightarrow> transient rep"
    by (simp add: run_defs stuck_cloud_def succeeding_cloud_def succeeded_def failed_def)
  have clock: "clock (snd (snd ?run)) = 305000"
    by (simp add: run_defs stuck_cloud_def succeeding_cloud_def)
  from waiter_budget[OF run] all clock show ?thesis
    by auto
qed

text \<open>
  C4, as stated, fails: a poll rejected with another error than
  \<^verbatim>\<open>InvocationDoesNotExist\<close> is thrown again by line 153. Here the first poll is
  throttled: the waiter fails with that error after one poll of its 30, without
  a retry and without a timeout.
\<close>

theorem waiter_poll_errors_counterexample:
  "waitForCommandCompletion reference_cloud (JSStr ''i-123'') ''cmd-1'' throttling_cloud =
     (Inl (AWSError (Some ''ThrottlingException'') (Some ''Rate exceeded'')),
      [Sleep 5000,
       Remote (GetCommandInvocation ''cmd-1'' (JSStr ''i-123''))
         (Rejected (AWSError (Some ''ThrottlingException'') (Some ''Rate exceeded'')))],
      throttling_cloud\<lparr>invocations := [], clock := 5000\<rparr>) \<and>
   1 < maxAttempts"
  by (simp add: run_defs throttling_cloud_def succeeding_cloud_def)

text \<open>
  C4, amended. A poll rejected with another error than \<^verbatim>\<open>InvocationDoesNotExist\<close>
  ends the run at once with that error. A transient poll (the error
  \<^verbatim>\<open>InvocationDoesNotExist\<close>, or a status that is neither a success nor a
  failure) is followed by the wait of 10000 ms, and then either by the next poll
  or, when it was the 30th poll, by the end of the run with the timeout error.
\<close>

theorem waiter_poll_errors:
  assumes "waitForCommandCompletion sv i c w = (r, evs, w')"
  shows "(\<forall>cl e. Remote cl (Rejected e) \<in> set evs \<and> \<not> is_InvocationDoesNotExist e \<longrightarrow>
            r = Inl e \<and> last evs = Remote cl (Rejected e)) \<and>
         (\<forall>pre cl rep post. evs = pre @ Remote cl rep # post \<and> transient rep \<longrightarrow>
            (\<exists>post'. post = Sleep 10000 # post' \<and>
               (if post' = [] then
                  r = Inl (Error ''Command timed out after 300 seconds'') \<and>
                  length (filter is_poll evs) = 30
                else \<exists>rep' rest. post' = Remote (GetCommandInvocation c i) rep' # rest)))"
proof -
  from assms obtain evs0 where evs: "evs = Sleep 5000 # evs0"
    and loop: "wait_loop sv i c 0 (setTimeout sv 5000 w) = (r, evs0, w')"
    by (rule waitForCommandCompletion_loop)
  have rethrown: "r = Inl e \<and> last evs = Remote cl (Rejected e)"
    if "Remote cl (Rejected e) \<in> set evs" "\<not> is_InvocationDoesNotExist e" for cl e
  proof -
    from that have m: "Remote cl (Rejected e) \<in> set evs0" by (simp add: evs)
    then have "evs0 \<noteq> []" by auto
    with wait_loop_error[OF loop m that(2)] show ?thesis
      by (simp add: evs)
  qed
  have retried: "\<exists>post'. post = Sleep 10000 # post' \<and>
      (if post' = [] then
         r = Inl (Error ''Command timed out after 300 seconds'') \<and> length (filter is_poll evs) = 30
       else \<exists>rep' rest. post' = Remote (GetCommandInvocation c i) rep' # rest)"
    if eq: "evs = pre @ Remote cl rep # post" and tr: "transient rep" for pre cl rep post
  proof -
    from eq obtain pre0 where pre: "pre = Sleep 5000 # pre0"
      and eq0: "evs0 = pre0 @ Remote cl rep # post"
      by (cases pre) (auto simp: evs)
    from wait_loop_retry[OF loop] eq0 tr obtain post' where post: "post = Sleep 10000 # post'"
      and nxt: "if post' = [] then r = Inl command_timed_out
                else \<exists>rep' rest. post' = Remote (GetCommandInvocation c i) rep' # rest"
      by blast
    show ?thesis
    proof (cases "post' = []")
      case True
      with eq0 post have "last evs0 = Sleep 10000" by simp
      from wait_loop_spent[OF loop disjI2, OF this] True post nxt show ?thesis
        by (simp add: evs maxAttempts_def command_timed_out_eq)
    next
      case False
      with post nxt show ?thesis by simp
    qed
  qed
  from rethrown retried show ?thesis
    by blast
qed

text \<open>A first poll that is retried, and a second one whose error is thrown again.\<close>

theorem waiter_poll_errors_witness:
  "waitForCommandCompletion reference_cloud (JSStr ''i-123'') ''cmd-1'' flaky_cloud =
     (Inl (AWSError (Some ''ThrottlingException'') (Some ''Rate exceeded'')),
      [Sleep 5000,
       Remote (GetCommandInvocation ''cmd-1'' (JSStr ''i-123''))
         (Rejected (AWSError (Some ''InvocationDoesNotExist'') None)),
       Sleep 10000,
       Remote (GetCommandInvocation ''cmd-1'' (JSStr ''i-123''))
         (Rejected (AWSError (Some ''ThrottlingException'') (Some ''Rate exceeded'')))],
      flaky_cloud\<lparr>invocations := [], clock := 15000\<rparr>) \<and>
   \<not> is_InvocationDoesNotExist (AWSError (Some ''ThrottlingException'') (Some ''Rate exceeded'')) \<and>
   transient (Rejected (AWSError (Some ''InvocationDoesNotExist'') None))"
proof -
  have run: "waitForCommandCompletion reference_cloud (JSStr ''i-123'') ''cmd-1'' flaky_cloud =
     (Inl (AWSError (Some ''ThrottlingException'') (Some ''Rate exceeded'')),
      [Sleep 5000,
       Remote (GetCommandInvocation ''cmd-1'' (JSStr ''i-123''))
         (Rejected (AWSError (Some ''InvocationDoesNotExist'') None)),
       Sleep 10000,
       Remote (GetCommandInvocation ''cmd-1'' (JSStr ''i-123''))
         (Rejected (AWSError (Some ''ThrottlingException'') (Some ''Rate exceeded'')))],
      flaky_cloud\<lparr>invocations := [], clock := 15000\<rparr>)"
    by (simp add: run_defs flaky_cloud_def succeeding_cloud_def)
  from waiter_poll_errors[OF run] run show ?thesis
    by simp
qed

section \<open>Runs of the provisioner, of the alarm functions and of the handler\<close>

lemma wait_if_dispatched_some:
  "Command_CommandId res = Some c \<Longrightarrow> c \<noteq> [] \<Longrightarrow>
     wait_if_dispatched sv i res = waitForCommandCompletion sv i c"
  by (simp add: wait_if_dispatched_def)

lemma wait_if_dispatched_none:
  "\<not> truthy_str (Command_CommandId res) \<Longrightarrow> wait_if_dispatched sv i res w = (Inr (), [], w)"
  by (cases "Command_CommandId res") (simp_all add: wait_if_dispatched_def resolve_def)

lemma wait_if_dispatched_events:
  assumes "wait_if_dispatched sv i res w = (r, evs, w')"
  shows "\<forall>e \<in> set evs. provisioning e"
proof (cases "truthy_str (Command_CommandId res)")
  case False
  with assms show ?thesis by (simp add: wait_if_dispatched_none)
next
  case True
  then obtain c where c: "Command_CommandId res = Some c" "c \<noteq> []"
    by (cases "Command_CommandId res") auto
  with assms have "waitForCommandCompletion sv i c w = (r, evs, w')"
    by (simp add: wait_if_dispatched_some)
  then obtain evs0 where evs: "evs = Sleep 5000 # evs0"
    and loop: "wait_loop sv i c 0 (setTimeout sv 5000 w) = (r, evs0, w')"
    by (rule waitForCommandCompletion_loop)
  from wait_loop_events[OF loop] show ?thesis
    by (auto simp: evs)
qed

text \<open>The five ways a run of the provisioner can go.\<close>

lemma install_runs:
  assumes "installCloudWatchAgent sv i w = (r, evs, w')"
  shows "(\<exists>e. r = Inl e \<and> evs = [Remote (SendCommand (installParams i)) (Rejected e)])
    \<or> (\<exists>res1 e wv1 wa wb. wait_if_dispatched sv i res1 wa = (Inl e, wv1, wb) \<and> r = Inl e \<and>
          evs = Remote (SendCommand (installParams i)) (Sent res1) # wv1)
    \<or> (\<exists>res1 e wv1 wa wb. wait_if_dispatched sv i res1 wa = (Inr (), wv1, wb) \<and> r = Inl e \<and>
          evs = Remote (SendCommand (installParams i)) (Sent res1) # wv1 @
                [Remote (PutParameter (configParameter i)) (Rejected e)])
    \<or> (\<exists>res1 e wv1 wa wb. wait_if_dispatched sv i res1 wa = (Inr (), wv1, wb) \<and> r = Inl e \<and>
          evs = Remote (SendCommand (installParams i)) (Sent res1) # wv1 @
                [Remote (PutParameter (configParameter i)) Ack,
                 Remote (SendCommand (configureParams i)) (Rejected e)])
    \<or> (\<exists>res1 res2 wv1 wv2 wa wb wc wd.
          wait_if_dispatched sv i res1 wa = (Inr (), wv1, wb) \<and>
          wait_if_dispatched sv i res2 wc = (r, wv2, wd) \<and>
          evs = Remote (SendCommand (installParams i)) (Sent res1) # wv1 @
                [Remote (PutParameter (configParameter i)) Ack,
                 Remote (SendCommand (configureParams i)) (Sent res2)] @ wv2)"
    (is "?A \<or> ?B \<or> ?C \<or> ?D \<or> ?E")
proof -
  note defs = installCloudWatchAgent_def try_catch_throw await_def sendCommand_def
    putParameter_def remote_def
  obtain q1 w1 where s1: "ssm_sendCommand sv (installParams i) w = (q1, w1)"
    by (cases "ssm_sendCommand sv (installParams i) w")
  show ?thesis
  proof (cases q1)
    case (Inl e)
    with assms s1 have "r = Inl e \<and> evs = [Remote (SendCommand (installParams i)) (Rejected e)]"
      by (auto simp: defs)
    then have ?A by blast
    then show ?thesis by (rule disjI1)
  next
    case (Inr res1)
    obtain r1 wv1 w2 where wt1: "wait_if_dispatched sv i res1 w1 = (r1, wv1, w2)"
      by (cases "wait_if_dispatched sv i res1 w1")
    show ?thesis
    proof (cases r1)
      case (Inl e)
      with assms s1 Inr wt1
      have "r = Inl e \<and> evs = Remote (SendCommand (installParams i)) (Sent res1) # wv1"
        by (auto simp: defs)
      with wt1 Inl have ?B by auto
      then show ?thesis by (intro disjI2 disjI1)
    next
      case ok1: (Inr u1)
      obtain q2 w3 where p: "ssm_putParameter sv (configParameter i) w2 = (q2, w3)"
        by (cases "ssm_putParameter sv (configParameter i) w2")
      show ?thesis
      proof (cases q2)
        case (Inl e)
        with assms s1 Inr wt1 ok1 p have "r = Inl e \<and>
          evs = Remote (SendCommand (installParams i)) (Sent res1) # wv1 @
                [Remote (PutParameter (configParameter i)) (Rejected e)]"
          by (auto simp: defs)
        with wt1 ok1 have ?C by auto
        then show ?thesis by (intro disjI2 disjI1)
      next
        case ok2: (Inr u2)
        obtain q3 w4 where s2: "ssm_sendCommand sv (configureParams i) w3 = (q3, w4)"
          by (cases "ssm_sendCommand sv (configureParams i) w3")
        show ?thesis
        proof (cases q3)
          case (Inl e)
          with assms s1 Inr wt1 ok1 p ok2 s2 have "r = Inl e \<and>
            evs = Remote (SendCommand (installParams i)) (Sent res1) # wv1 @
                  [Remote (PutParameter (configParameter i)) Ack,
                   Remote (SendCommand (configureParams i)) (Rejected e)]"
            by (auto simp: defs)
          with wt1 ok1 have ?D by auto
          then show ?thesis by (intro disjI2 disjI1)
        next
          case ok3: (Inr res2)
          obtain r2 wv2 w5 where wt2: "wait_if_dispatched sv i res2 w4 = (r2, wv2, w5)"
            by (cases "wait_if_dispatched sv i res2 w4")
          with assms s1 Inr wt1 ok1 p ok2 s2 ok3 have "r = r2 \<and>
            evs = Remote (SendCommand (installParams i)) (Sent res1) # wv1 @
                  [Remote (PutParameter (configParameter i)) Ack,
                   Remote (SendCommand (configureParams i)) (Sent res2)] @ wv2"
            by (auto simp: defs)
          with wt1 ok1 wt2 have ?E
            by (intro exI[of _ res1] exI[of _ res2] exI[of _ wv1] exI[of _ wv2]
                exI[of _ w1] exI[of _ w2] exI[of _ w4] exI[of _ w5]) simp
          then show ?thesis by (intro disjI2)
        qed
      qed
    qed
  qed
qed

lemma install_events:
  assumes "installCloudWatchAgent sv i w = (r, evs, w')"
  shows "\<forall>e \<in> set evs. provisioning e"
  using install_runs[OF assms]
  by (elim disjE exE conjE) (auto dest: wait_if_dispatched_events)

lemma getInstanceInfo_eq:
  "getInstanceInfo sv i w =
     (case ec2_describeInstances sv [i] w of
        (Inl e, w1) \<Rightarrow> (Inl e, [Remote (DescribeInstances [i]) (Rejected e)], w1)
      | (Inr res, w1) \<Rightarrow>
          (case instance_info res of
             None \<Rightarrow> (Inl (not_found i), [Remote (DescribeInstances [i]) (Described res)], w1)
           | Some info \<Rightarrow> (Inr info, [Remote (DescribeInstances [i]) (Described res)], w1)))"
  by (simp add: getInstanceInfo_def await_def describeInstances_def remote_def throw_def
      resolve_def split: prod.splits sum.splits option.splits)

lemma putMetricAlarm_eq:
  "putMetricAlarm sv req w =
     (case cloudwatch_putMetricAlarm sv req w of
        (Inl e, w1) \<Rightarrow> (Inl e, [Remote (PutMetricAlarm req) (Rejected e)], w1)
      | (Inr u, w1) \<Rightarrow> (Inr (), [Remote (PutMetricAlarm req) Ack], w1))"
  by (simp add: putMetricAlarm_def remote_def split: prod.splits sum.splits)

text \<open>The five ways a run of \<^verbatim>\<open>createAlarms\<close> can go.\<close>

lemma createAlarms_runs:
  assumes "createAlarms sv i t w = (r, evs, w')"
  shows "(\<exists>e. r = Inl e \<and> evs = [Remote (DescribeInstances [i]) (Rejected e)])
    \<or> (\<exists>res. instance_info res = None \<and> r = Inl (not_found i) \<and>
          evs = [Remote (DescribeInstances [i]) (Described res)])
    \<or> (\<exists>res info e. instance_info res = Some info \<and> r = Inl e \<and>
          evs = [Remote (DescribeInstances [i]) (Described res),
                 Remote (PutMetricAlarm (cpuAlarm i t)) (Rejected e)])
    \<or> (\<exists>res info e. instance_info res = Some info \<and> r = Inl e \<and>
          evs = [Remote (DescribeInstances [i]) (Described res),
                 Remote (PutMetricAlarm (cpuAlarm i t)) Ack,
                 Remote (PutMetricAlarm (memoryAlarm i info t)) (Rejected e)])
    \<or> (\<exists>res info. instance_info res = Some info \<and> r = Inr () \<and>
          evs = [Remote (DescribeInstances [i]) (Described res),
                 Remote (PutMetricAlarm (cpuAlarm i t)) Ack,
                 Remote (PutMetricAlarm (memoryAlarm i info t)) Ack])"
    (is "?A \<or> ?B \<or> ?C \<or> ?D \<or> ?E")
proof -
  note defs = createAlarms_def try_catch_throw await_def getInstanceInfo_eq putMetricAlarm_eq
  obtain q1 w1 where d: "ec2_describeInstances sv [i] w = (q1, w1)"
    by (cases "ec2_describeInstances sv [i] w")
  show ?thesis
  proof (cases q1)
    case (Inl e)
    with assms d have ?A by (auto simp: defs)
    then show ?thesis by (rule disjI1)
  next
    case (Inr res)
    show ?thesis
    proof (cases "instance_info res")
      case None
      with assms d Inr have ?B by (auto simp: defs)
      then show ?thesis by (intro disjI2 disjI1)
    next
      case (Some info)
      obtain q2 w2 where p1: "cloudwatch_putMetricAlarm sv (cpuAlarm i t) w1 = (q2, w2)"
        by (cases "cloudwatch_putMetricAlarm sv (cpuAlarm i t) w1")
      show ?thesis
      proof (cases q2)
        case (Inl e)
        with assms d Inr Some p1 have ?C by (auto simp: defs)
        then show ?thesis by (intro disjI2 disjI1)
      next
        case ok: (Inr u)
        obtain q3 w3 where p2: "cloudwatch_putMetricAlarm sv (memoryAlarm i info t) w2 = (q3, w3)"
          by (cases "cloudwatch_putMetricAlarm sv (memoryAlarm i info t) w2")
        show ?thesis
        proof (cases q3)
          case (Inl e)
          with assms d Inr Some p1 ok p2 have ?D by (auto simp: defs)
          then show ?thesis by (intro disjI2 disjI1)
        next
          case (Inr u2)
          with assms d \<open>q1 = Inr res\<close> Some p1 ok p2 have ?E by (auto simp: defs)
          then show ?thesis by (intro disjI2)
        qed
      qed
    qed
  qed
qed

lemma deleteAlarms_eq:
  "deleteAlarms sv i w =
     (case cloudwatch_deleteAlarms sv [''CPU-High-'' @ template i, ''Memory-High-'' @ template i] w of
        (Inl e, w1) \<Rightarrow>
          (Inl e, [Remote (DeleteAlarms [''CPU-High-'' @ template i, ''Memory-High-'' @ template i])
                     (Rejected e)], w1)
      | (Inr u, w1) \<Rightarrow>
          (Inr (), [Remote (DeleteAlarms [''CPU-High-'' @ template i, ''Memory-High-'' @ template i])
                      Ack], w1))"
  by (simp add: deleteAlarms_def try_catch_throw deleteAlarms_call_def remote_def
      split: prod.splits sum.splits)

lemma instance_info_first:
  "instance_info res = Some info \<Longrightarrow>
     \<exists>inst. first_instance res = Some inst \<and> InstanceType inst = Some (instanceType info) \<and>
       ImageId inst = Some (imageId info)"
  by (auto simp: instance_info_def split: option.splits if_splits)

lemma dispatch_eq:
  "dispatch sv t i st =
     (if st = JSStr ''running'' then
        await (installCloudWatchAgent sv i) (\<lambda>_. createAlarms sv i t)
      else if st = JSStr ''terminated'' then deleteAlarms sv i
      else resolve ())"
  by (simp add: dispatch_def try_catch_throw)

lemma validate_Inr:
  "validate env event = Inr (t, i, st) \<Longrightarrow>
     env = Some t \<and> t \<noteq> [] \<and>
     (\<exists>d. get_prop event ''detail'' = Inr d \<and> truthy d \<and> typeof_object d \<and>
        get_prop d ''instance-id'' = Inr i \<and> truthy i \<and>
        get_prop d ''state'' = Inr st \<and> truthy st)"
  by (auto simp: validate_def split: option.splits sum.splits if_splits)

lemma handler_valid:
  "validate env event = Inr (t, i, st) \<Longrightarrow> convertible i \<Longrightarrow> convertible st \<Longrightarrow>
     handler sv env event = dispatch sv t i st"
  by (simp add: handler_def processing_message_def to_string_def)

lemma handler_invalid:
  "validate env event = Inl e \<Longrightarrow> handler sv env event w = (Inl e, [], w)"
  by (simp add: handler_def throw_def)

lemma empty_string_field:
  "get_prop d k = Inr (JSStr []) \<Longrightarrow> truthy d \<and> typeof_object d"
  by (cases d) auto

lemma reference_deleteAlarms:
  "cloudwatch_deleteAlarms reference_cloud names w =
     (Inr (), w\<lparr>alarms := filter (\<lambda>a. AlarmName a \<notin> set names) (alarms w)\<rparr>)"
  by (simp add: reference_cloud_def)

lemma reference_deleteAlarms_names:
  "alarm_names (w\<lparr>alarms := filter (\<lambda>a. AlarmName a \<notin> set names) (alarms w)\<rparr>) =
     alarm_names w - set names"
  by (auto simp: alarm_names_def)

text \<open>The definitions that evaluate a run on the reference cloud.\<close>

lemmas alarm_defs = createAlarms_def deleteAlarms_def try_catch_throw getInstanceInfo_def
  describeInstances_def putMetricAlarm_def deleteAlarms_call_def instance_info_def
  first_instance_def a_running_instance_def

lemmas handler_defs = handler_def validate_def processing_message_def to_string_def
  dispatch_def lifecycle_event_def
  installCloudWatchAgent_def sendCommand_def putParameter_def wait_if_dispatched_def
  Command_CommandId_def

section \<open>The claim about the provisioner\<close>

text \<open>
  C5, as stated, fails: the waiter is awaited only under the guard of lines 51 and
  109, when the reply to the dispatch carries a command id. On a cloud whose
  replies carry none, the provisioner writes the parameter and dispatches the
  second command without a wait or a poll, and succeeds.
\<close>

theorem provision_sequence_counterexample:
  "installCloudWatchAgent reference_cloud (JSStr ''i-123'') silent_cloud =
     (Inr (),
      [Remote (SendCommand (installParams (JSStr ''i-123''))) (Sent \<lparr>Command = None\<rparr>),
       Remote (PutParameter (configParameter (JSStr ''i-123''))) Ack,
       Remote (SendCommand (configureParams (JSStr ''i-123''))) (Sent \<lparr>Command = None\<rparr>)],
      silent_cloud\<lparr>parameters :=
        [(Name (configParameter (JSStr ''i-123'')), Value (configParameter (JSStr ''i-123'')))]\<rparr>)"
  by (simp add: installCloudWatchAgent_def try_catch_throw await_def sendCommand_def
      putParameter_def remote_def wait_if_dispatched_def Command_CommandId_def resolve_def
      reference_cloud_def silent_cloud_def succeeding_cloud_def)

text \<open>
  C5, amended. Every run of the provisioner is one of five: the install dispatch
  is rejected; the wait after it fails; the parameter write is rejected; the
  configure dispatch is rejected; or all three steps are done and the wait after
  the configure dispatch gives the result. Each failure is the run's result and
  its event is the last one: no step is repeated. The wait after a dispatch is the
  waiter on the command id of the reply when the reply has a non-empty one, and
  nothing at all otherwise. The parameter is written with overwrite under
  \<^verbatim>\<open>/cloudwatch-agent/config/<instanceId>\<close>, the key the configure command names.
\<close>

theorem provision_sequence:
  assumes "installCloudWatchAgent sv i w = (r, evs, w')"
  shows "((\<exists>e. r = Inl e \<and> evs = [Remote (SendCommand (installParams i)) (Rejected e)])
    \<or> (\<exists>res1 e wv1 wa wb. wait_if_dispatched sv i res1 wa = (Inl e, wv1, wb) \<and> r = Inl e \<and>
          evs = Remote (SendCommand (installParams i)) (Sent res1) # wv1)
    \<or> (\<exists>res1 e wv1 wa wb. wait_if_dispatched sv i res1 wa = (Inr (), wv1, wb) \<and> r = Inl e \<and>
          evs = Remote (SendCommand (installParams i)) (Sent res1) # wv1 @
                [Remote (PutParameter (configParameter i)) (Rejected e)])
    \<or> (\<exists>res1 e wv1 wa wb. wait_if_dispatched sv i res1 wa = (Inr (), wv1, wb) \<and> r = Inl e \<and>
          evs = Remote (SendCommand (installParams i)) (Sent res1) # wv1 @
                [Remote (PutParameter (configParameter i)) Ack,
                 Remote (SendCommand (configureParams i)) (Rejected e)])
    \<or> (\<exists>res1 res2 wv1 wv2 wa wb wc wd.
          wait_if_dispatched sv i res1 wa = (Inr (), wv1, wb) \<and>
          wait_if_dispatched sv i res2 wc = (r, wv2, wd) \<and>
          evs = Remote (SendCommand (installParams i)) (Sent res1) # wv1 @
                [Remote (PutParameter (configParameter i)) Ack,
                 Remote (SendCommand (configureParams i)) (Sent res2)] @ wv2)) \<and>
    (\<forall>res c. Command_CommandId res = Some c \<and> c \<noteq> [] \<longrightarrow>
       wait_if_dispatched sv i res = waitForCommandCompletion sv i c) \<and>
    (\<forall>res wa. \<not> truthy_str (Command_CommandId res) \<longrightarrow>
       wait_if_dispatched sv i res wa = (Inr (), [], wa)) \<and>
    Name (configParameter i) = ''/cloudwatch-agent/config/'' @ template i \<and>
    Overwrite (configParameter i) \<and>
    (''optionalConfigurationLocation'', [Name (configParameter i)]) \<in> set (Parameters (configureParams i))"
  using install_runs[OF assms]
  by (simp add: wait_if_dispatched_some wait_if_dispatched_none configParameter_def
      parameterName_def configureParams_def)

text \<open>Scenario A's provisioning: both commands succeed at their first poll.\<close>

theorem provision_sequence_witness:
  "installCloudWatchAgent reference_cloud (JSStr ''i-123'') succeeding_cloud =
     (Inr (),
      [Remote (SendCommand (installParams (JSStr ''i-123'')))
         (Sent \<lparr>Command = Some \<lparr>CommandId = Some ''cmd-1''\<rparr>\<rparr>),
       Sleep 5000,
       Remote (GetCommandInvocation ''cmd-1'' (JSStr ''i-123''))
         (Invocation \<lparr>Status = Some ''Success'', StandardErrorContent = None\<rparr>),
       Remote (PutParameter (configParameter (JSStr ''i-123''))) Ack,
       Remote (SendCommand (configureParams (JSStr ''i-123'')))
         (Sent \<lparr>Command = Some \<lparr>CommandId = Some ''cmd-1''\<rparr>\<rparr>),
       Sleep 5000,
       Remote (GetCommandInvocation ''cmd-1'' (JSStr ''i-123''))
         (Invocation \<lparr>Status = Some ''Success'', StandardErrorContent = None\<rparr>)],
      succeeding_cloud\<lparr>invocations := [], clock := 10000, parameters :=
        [(Name (configParameter (JSStr ''i-123'')), Value (configParameter (JSStr ''i-123'')))]\<rparr>) \<and>
   Name (configParameter (JSStr ''i-123'')) = ''/cloudwatch-agent/config/i-123''"
proof -
  have run: "installCloudWatchAgent reference_cloud (JSStr ''i-123'') succeeding_cloud =
     (Inr (),
      [Remote (SendCommand (installParams (JSStr ''i-123'')))
         (Sent \<lparr>Command = Some \<lparr>CommandId = Some ''cmd-1''\<rparr>\<rparr>),
       Sleep 5000,
       Remote (GetCommandInvocation ''cmd-1'' (JSStr ''i-123''))
         (Invocation \<lparr>Status = Some ''Success'', StandardErrorContent = None\<rparr>),
       Remote (PutParameter (configParameter (JSStr ''i-123''))) Ack,
       Remote (SendCommand (configureParams (JSStr ''i-123'')))
         (Sent \<lparr>Command = Some \<lparr>CommandId = Some ''cmd-1''\<rparr>\<rparr>),
       Sleep 5000,
       Remote (GetCommandInvocation ''cmd-1'' (JSStr ''i-123''))
         (Invocation \<lparr>Status = Some ''Success'', StandardErrorContent = None\<rparr>)],
      succeeding_cloud\<lparr>invocations := [], clock := 10000, parameters :=
        [(Name (configParameter (JSStr ''i-123'')), Value (configParameter (JSStr ''i-123'')))]\<rparr>)"
    by (simp add: installCloudWatchAgent_def try_catch_throw sendCommand_def
      putParameter_def wait_if_dispatched_def Command_CommandId_def run_defs succeeding_cloud_def)
  have "Name (configParameter (JSStr ''i-123'')) = ''/cloudwatch-agent/config/'' @ template (JSStr ''i-123'')"
    using provision_sequence[OF run] by (elim conjE)
  with run show ?thesis
    by simp
qed

section \<open>The claims about the alarms\<close>

text \<open>
  C6, as stated, fails: the Memory alarm is put only after the CPU alarm was
  acknowledged. On a cloud whose alarm quota is used up, the metadata resolves,
  the CPU upsert is rejected, and the run ends with that one upsert.
\<close>

theorem createAlarms_calls_counterexample:
  "createAlarms reference_cloud (JSStr ''i-123'') ''arn:aws:sns:alerts'' full_cloud =
     (Inl (AWSError (Some ''LimitExceeded'') (Some ''Alarm quota reached'')),
      [Remote (DescribeInstances [JSStr ''i-123'']) (Described a_running_instance),
       Remote (PutMetricAlarm (cpuAlarm (JSStr ''i-123'') ''arn:aws:sns:alerts''))
         (Rejected (AWSError (Some ''LimitExceeded'') (Some ''Alarm quota reached'')))],
      full_cloud)"
  by (simp add: alarm_defs run_defs full_cloud_def succeeding_cloud_def)

text \<open>
  C6, amended. Every run of \<^verbatim>\<open>createAlarms\<close> first describes the instance and is one
  of five: the lookup is rejected, or its reply lacks the instance, its type or
  its image id (then no alarm is put); the CPU upsert is rejected (then the
  Memory alarm is not put); the Memory upsert is rejected; or both upserts are
  acknowledged, the CPU one first, and the run succeeds. The CPU alarm has
  threshold 80, period 60, 1 evaluation period, 1 datapoint to alarm,
  \<^verbatim>\<open>GreaterThanThreshold\<close>, \<^verbatim>\<open>Average\<close>, missing data \<^verbatim>\<open>missing\<close>, the one dimension
  \<^verbatim>\<open>InstanceId\<close> and the one action the notification target; the Memory alarm has
  threshold 75, the same shape, and the dimensions \<^verbatim>\<open>InstanceId\<close>, \<^verbatim>\<open>InstanceType\<close>
  and \<^verbatim>\<open>ImageId\<close> of the first instance of the lookup's reply.
\<close>

theorem createAlarms_calls:
  assumes "createAlarms sv i t w = (r, evs, w')"
  shows "((\<exists>e. r = Inl e \<and> evs = [Remote (DescribeInstances [i]) (Rejected e)])
    \<or> (\<exists>res. instance_info res = None \<and> r = Inl (not_found i) \<and>
          evs = [Remote (DescribeInstances [i]) (Described res)])
    \<or> (\<exists>res info e. instance_info res = Some info \<and> r = Inl e \<and>
          evs = [Remote (DescribeInstances [i]) (Described res),
                 Remote (PutMetricAlarm (cpuAlarm i t)) (Rejected e)])
    \<or> (\<exists>res info e. instance_info res = Some info \<and> r = Inl e \<and>
          evs = [Remote (DescribeInstances [i]) (Described res),
                 Remote (PutMetricAlarm (cpuAlarm i t)) Ack,
                 Remote (PutMetricAlarm (memoryAlarm i info t)) (Rejected e)])
    \<or> (\<exists>res info. instance_info res = Some info \<and> r = Inr () \<and>
          evs = [Remote (DescribeInstances [i]) (Described res),
                 Remote (PutMetricAlarm (cpuAlarm i t)) Ack,
                 Remote (PutMetricAlarm (memoryAlarm i info t)) Ack])) \<and>
    (Threshold (cpuAlarm i t) = 80 \<and> Period (cpuAlarm i t) = 60 \<and>
     EvaluationPeriods (cpuAlarm i t) = 1 \<and> DatapointsToAlarm (cpuAlarm i t) = 1 \<and>
     ComparisonOperator (cpuAlarm i t) = ''GreaterThanThreshold'' \<and>
     Statistic (cpuAlarm i t) = ''Average'' \<and> TreatMissingData (cpuAlarm i t) = ''missing'' \<and>
     Dimensions (cpuAlarm i t) = [(''InstanceId'', i)] \<and> AlarmActions (cpuAlarm i t) = [t]) \<and>
    (\<forall>info.
     Threshold (memoryAlarm i info t) = 75 \<and> Period (memoryAlarm i info t) = 60 \<and>
     EvaluationPeriods (memoryAlarm i info t) = 1 \<and> DatapointsToAlarm (memoryAlarm i info t) = 1 \<and>
     ComparisonOperator (memoryAlarm i info t) = ''GreaterThanThreshold'' \<and>
     Statistic (memoryAlarm i info t) = ''Average'' \<and>
     TreatMissingData (memoryAlarm i info t) = ''missing'' \<and>
     Dimensions (memoryAlarm i info t) =
       [(''InstanceId'', i), (''InstanceType'', JSStr (instanceType info)),
        (''ImageId'', JSStr (imageId info))] \<and>
     AlarmActions (memoryAlarm i info t) = [t]) \<and>
    (\<forall>res info. instance_info res = Some info \<longrightarrow>
       (\<exists>inst. first_instance res = Some inst \<and> InstanceType inst = Some (instanceType info) \<and>
          ImageId inst = Some (imageId info)))"
  using createAlarms_runs[OF assms]
  by (simp add: cpuAlarm_def memoryAlarm_def instance_info_first)

text \<open>Scenario A's alarms.\<close>

theorem createAlarms_calls_witness:
  "createAlarms reference_cloud (JSStr ''i-123'') ''arn:aws:sns:alerts'' succeeding_cloud =
     (Inr (),
      [Remote (DescribeInstances [JSStr ''i-123'']) (Described a_running_instance),
       Remote (PutMetricAlarm (cpuAlarm (JSStr ''i-123'') ''arn:aws:sns:alerts'')) Ack,
       Remote (PutMetricAlarm (memoryAlarm (JSStr ''i-123'')
          \<lparr>instanceType = ''t3.micro'', imageId = ''ami-0abc''\<rparr> ''arn:aws:sns:alerts'')) Ack],
      succeeding_cloud\<lparr>alarms :=
        [memoryAlarm (JSStr ''i-123'') \<lparr>instanceType = ''t3.micro'', imageId = ''ami-0abc''\<rparr>
           ''arn:aws:sns:alerts'',
         cpuAlarm (JSStr ''i-123'') ''arn:aws:sns:alerts'']\<rparr>) \<and>
   Threshold (cpuAlarm (JSStr ''i-123'') ''arn:aws:sns:alerts'') = 80 \<and>
   Dimensions (memoryAlarm (JSStr ''i-123'') \<lparr>instanceType = ''t3.micro'', imageId = ''ami-0abc''\<rparr>
      ''arn:aws:sns:alerts'') =
     [(''InstanceId'', JSStr ''i-123''), (''InstanceType'', JSStr ''t3.micro''),
      (''ImageId'', JSStr ''ami-0abc'')]"
proof -
  have run: "createAlarms reference_cloud (JSStr ''i-123'') ''arn:aws:sns:alerts'' succeeding_cloud =
     (Inr (),
      [Remote (DescribeInstances [JSStr ''i-123'']) (Described a_running_instance),
       Remote (PutMetricAlarm (cpuAlarm (JSStr ''i-123'') ''arn:aws:sns:alerts'')) Ack,
       Remote (PutMetricAlarm (memoryAlarm (JSStr ''i-123'')
          \<lparr>instanceType = ''t3.micro'', imageId = ''ami-0abc''\<rparr> ''arn:aws:sns:alerts'')) Ack],
      succeeding_cloud\<lparr>alarms :=
        [memoryAlarm (JSStr ''i-123'') \<lparr>instanceType = ''t3.micro'', imageId = ''ami-0abc''\<rparr>
           ''arn:aws:sns:alerts'',
         cpuAlarm (JSStr ''i-123'') ''arn:aws:sns:alerts'']\<rparr>)"
    by (simp add: alarm_defs run_defs succeeding_cloud_def cpuAlarm_def memoryAlarm_def)
  from createAlarms_calls[OF run] run show ?thesis
    by simp
qed



text \<open>
  C9. Under the contract of the delete call (deleting names that are all absent
  is acknowledged and leaves the alarms as they are; an acknowledged delete
  removes the names), with \<open>alarms_of\<close> the names of the alarms a world holds:
  \<^verbatim>\<open>deleteAlarms\<close> on a world without the two alarms succeeds and changes no alarm;
  and after one successful \<^verbatim>\<open>deleteAlarms\<close> a second one succeeds too and leaves
  the same alarms, both names absent. With a collaborator that acknowledges
  every delete, both calls succeed.
\<close>

theorem deleteAlarms_idempotent:
  assumes absent: "\<forall>names w. (\<forall>n \<in> set names. n \<notin> alarms_of w) \<longrightarrow>
        (\<exists>w1. cloudwatch_deleteAlarms sv names w = (Inr (), w1) \<and> alarms_of w1 = alarms_of w)"
    and removes: "\<forall>names w w1. cloudwatch_deleteAlarms sv names w = (Inr (), w1) \<longrightarrow>
        alarms_of w1 = alarms_of w - set names"
    and once: "deleteAlarms sv i w = (r1, evs1, w1)"
    and twice: "deleteAlarms sv i w1 = (r2, evs2, w2)"
  shows "(''CPU-High-'' @ template i \<notin> alarms_of w \<and> ''Memory-High-'' @ template i \<notin> alarms_of w \<longrightarrow>
            r1 = Inr () \<and> alarms_of w1 = alarms_of w) \<and>
         (r1 = Inr () \<longrightarrow>
            r2 = Inr () \<and> alarms_of w2 = alarms_of w1 \<and>
            ''CPU-High-'' @ template i \<notin> alarms_of w1 \<and>
            ''Memory-High-'' @ template i \<notin> alarms_of w1) \<and>
         ((\<forall>names w0. \<exists>w3. cloudwatch_deleteAlarms sv names w0 = (Inr (), w3)) \<longrightarrow>
            r1 = Inr () \<and> r2 = Inr () \<and> alarms_of w2 = alarms_of w1)"
proof -
  let ?names = "[''CPU-High-'' @ template i, ''Memory-High-'' @ template i]"
  have first: "r1 = Inr () \<and> alarms_of w1 = alarms_of w"
    if "''CPU-High-'' @ template i \<notin> alarms_of w" "''Memory-High-'' @ template i \<notin> alarms_of w"
  proof -
    from that have "\<forall>n \<in> set ?names. n \<notin> alarms_of w" by simp
    with absent obtain w0 where "cloudwatch_deleteAlarms sv ?names w = (Inr (), w0)"
      and "alarms_of w0 = alarms_of w" by blast
    with once show ?thesis
      by (auto simp: deleteAlarms_eq)
  qed
  have second: "r2 = Inr () \<and> alarms_of w2 = alarms_of w1 \<and>
      ''CPU-High-'' @ template i \<notin> alarms_of w1 \<and> ''Memory-High-'' @ template i \<notin> alarms_of w1"
    if "r1 = Inr ()"
  proof -
    from once that have "cloudwatch_deleteAlarms sv ?names w = (Inr (), w1)"
      by (auto simp: deleteAlarms_eq split: prod.splits sum.splits)
    with removes have gone: "alarms_of w1 = alarms_of w - set ?names" by blast
    then have "\<forall>n \<in> set ?names. n \<notin> alarms_of w1" by simp
    with absent obtain w0 where "cloudwatch_deleteAlarms sv ?names w1 = (Inr (), w0)"
      and "alarms_of w0 = alarms_of w1" by blast
    with twice gone show ?thesis
      by (auto simp: deleteAlarms_eq)
  qed
  have always: "r1 = Inr ()"
    if "\<forall>names w0. \<exists>w3. cloudwatch_deleteAlarms sv names w0 = (Inr (), w3)"
  proof -
    from that obtain w3 where "cloudwatch_deleteAlarms sv ?names w = (Inr (), w3)" by blast
    with once show ?thesis
      by (auto simp: deleteAlarms_eq)
  qed
  from first second always show ?thesis
    by blast
qed

theorem deleteAlarms_idempotent_witness:
  "deleteAlarms reference_cloud (JSStr ''i-123'') monitored_cloud =
     (Inr (), [Remote (DeleteAlarms [''CPU-High-i-123'', ''Memory-High-i-123'']) Ack],
      monitored_cloud\<lparr>alarms := [cpuAlarm (JSStr ''i-999'') ''arn:aws:sns:alerts'']\<rparr>) \<and>
   deleteAlarms reference_cloud (JSStr ''i-123'')
     (monitored_cloud\<lparr>alarms := [cpuAlarm (JSStr ''i-999'') ''arn:aws:sns:alerts'']\<rparr>) =
     (Inr (), [Remote (DeleteAlarms [''CPU-High-i-123'', ''Memory-High-i-123'']) Ack],
      monitored_cloud\<lparr>alarms := [cpuAlarm (JSStr ''i-999'') ''arn:aws:sns:alerts'']\<rparr>) \<and>
   ''CPU-High-i-123'' \<notin>
     alarm_names (monitored_cloud\<lparr>alarms := [cpuAlarm (JSStr ''i-999'') ''arn:aws:sns:alerts'']\<rparr>) \<and>
   ''Memory-High-i-123'' \<notin>
     alarm_names (monitored_cloud\<lparr>alarms := [cpuAlarm (JSStr ''i-999'') ''arn:aws:sns:alerts'']\<rparr>)"
proof -
  let ?after = "monitored_cloud\<lparr>alarms := [cpuAlarm (JSStr ''i-999'') ''arn:aws:sns:alerts'']\<rparr>"
  have absent: "\<forall>names w. (\<forall>n \<in> set names. n \<notin> alarm_names w) \<longrightarrow>
      (\<exists>w1. cloudwatch_deleteAlarms reference_cloud names w = (Inr (), w1) \<and>
         alarm_names w1 = alarm_names w)"
    by (auto simp: reference_deleteAlarms reference_deleteAlarms_names)
  have removes: "\<forall>names w w1. cloudwatch_deleteAlarms reference_cloud names w = (Inr (), w1) \<longrightarrow>
      alarm_names w1 = alarm_names w - set names"
    by (auto simp: reference_deleteAlarms reference_deleteAlarms_names)
  have once: "deleteAlarms reference_cloud (JSStr ''i-123'') monitored_cloud =
     (Inr (), [Remote (DeleteAlarms [''CPU-High-i-123'', ''Memory-High-i-123'']) Ack], ?after)"
    by (simp add: alarm_defs run_defs monitored_cloud_def succeeding_cloud_def cpuAlarm_def
        memoryAlarm_def)
  have twice: "deleteAlarms reference_cloud (JSStr ''i-123'') ?after =
     (Inr (), [Remote (DeleteAlarms [''CPU-High-i-123'', ''Memory-High-i-123'']) Ack], ?after)"
    by (simp add: alarm_defs run_defs monitored_cloud_def succeeding_cloud_def cpuAlarm_def
        memoryAlarm_def)
  from deleteAlarms_idempotent[OF absent removes once twice] once twice show ?thesis
    by simp
qed

section \<open>The claims about the handler\<close>

text \<open>
  C1, as stated, fails: between the checks and the dispatch, the log line 261
  converts the instance id and the state to strings. Here the state is the
  object \<^verbatim>\<open>{"toString": 1}\<close>: the event passes the checks, its state is neither
  \<^verbatim>\<open>running\<close> nor \<^verbatim>\<open>terminated\<close>, and the handler fails with a \<^verbatim>\<open>TypeError\<close>.
\<close>

theorem handler_dispatch_counterexample:
  "validate (Some ''arn:aws:sns:alerts'')
     (lifecycle_event (JSStr ''i-123'') (JSObj [(''toString'', JSNum True ''1'')])) =
     Inr (''arn:aws:sns:alerts'', JSStr ''i-123'', JSObj [(''toString'', JSNum True ''1'')]) \<and>
   JSObj [(''toString'', JSNum True ''1'')] \<noteq> JSStr ''running'' \<and>
   JSObj [(''toString'', JSNum True ''1'')] \<noteq> JSStr ''terminated'' \<and>
   handler reference_cloud (Some ''arn:aws:sns:alerts'')
     (lifecycle_event (JSStr ''i-123'') (JSObj [(''toString'', JSNum True ''1'')])) succeeding_cloud =
     (Inl (TypeError ''Cannot convert object to primitive value''), [], succeeding_cloud)"
  by (simp add: handler_def validate_def processing_message_def to_string_def
      lifecycle_event_def throw_def)

text \<open>
  C1, amended. For every event that passes the checks of lines 241 to 259 and
  whose instance id and state have a string conversion (every string has one),
  with \<^verbatim>\<open>instanceId\<close> and \<^verbatim>\<open>state\<close> the two fields of its detail: when the state is
  the string \<^verbatim>\<open>running\<close> the handler runs the provisioner, whose events are all
  provisioning events, and then, if it failed, fails with its error and does
  nothing more, and if it succeeded, runs \<^verbatim>\<open>createAlarms\<close>; when the state is the
  string \<^verbatim>\<open>terminated\<close> the handler is \<^verbatim>\<open>deleteAlarms\<close>, whose one event is the
  delete call; for any other state it succeeds with no event and leaves the
  world as it is.
\<close>

theorem handler_dispatch:
  assumes valid: "validate env event = Inr (t, i, st)"
    and conv: "convertible i" "convertible st"
    and run: "handler sv env event w = (r, evs, w')"
  shows "(\<exists>d. get_prop event ''detail'' = Inr d \<and> get_prop d ''instance-id'' = Inr i \<and>
            get_prop d ''state'' = Inr st) \<and>
         (st = JSStr ''running'' \<longrightarrow>
            (\<exists>r1 evs1 w1. installCloudWatchAgent sv i w = (r1, evs1, w1) \<and>
               (\<forall>ev \<in> set evs1. provisioning ev) \<and>
               (case r1 of
                  Inl e \<Rightarrow> r = Inl e \<and> evs = evs1 \<and> w' = w1
                | Inr u \<Rightarrow> \<exists>evs2. createAlarms sv i t w1 = (r, evs2, w') \<and> evs = evs1 @ evs2))) \<and>
         (st = JSStr ''terminated'' \<longrightarrow>
            deleteAlarms sv i w = (r, evs, w') \<and>
            (\<exists>rep. evs = [Remote (DeleteAlarms [''CPU-High-'' @ template i,
                                                ''Memory-High-'' @ template i]) rep])) \<and>
         (st \<noteq> JSStr ''running'' \<and> st \<noteq> JSStr ''terminated'' \<longrightarrow>
            r = Inr () \<and> evs = [] \<and> w' = w)"
proof -
  from run valid conv have d: "dispatch sv t i st w = (r, evs, w')"
    by (simp add: handler_valid)
  have fields: "\<exists>d. get_prop event ''detail'' = Inr d \<and> get_prop d ''instance-id'' = Inr i \<and>
            get_prop d ''state'' = Inr st"
    using validate_Inr[OF valid] by blast
  have running: "\<exists>r1 evs1 w1. installCloudWatchAgent sv i w = (r1, evs1, w1) \<and>
               (\<forall>ev \<in> set evs1. provisioning ev) \<and>
               (case r1 of
                  Inl e \<Rightarrow> r = Inl e \<and> evs = evs1 \<and> w' = w1
                | Inr u \<Rightarrow> \<exists>evs2. createAlarms sv i t w1 = (r, evs2, w') \<and> evs = evs1 @ evs2)"
    if "st = JSStr ''running''"
  proof -
    obtain r1 evs1 w1 where inst: "installCloudWatchAgent sv i w = (r1, evs1, w1)"
      by (cases "installCloudWatchAgent sv i w")
    from d that inst have "case r1 of
                  Inl e \<Rightarrow> r = Inl e \<and> evs = evs1 \<and> w' = w1
                | Inr u \<Rightarrow> \<exists>evs2. createAlarms sv i t w1 = (r, evs2, w') \<and> evs = evs1 @ evs2"
      by (auto simp: dispatch_eq await_def split: sum.splits prod.splits)
    with inst install_events[OF inst] show ?thesis by blast
  qed
  have terminated: "deleteAlarms sv i w = (r, evs, w') \<and>
            (\<exists>rep. evs = [Remote (DeleteAlarms [''CPU-High-'' @ template i,
                                                ''Memory-High-'' @ template i]) rep])"
    if "st = JSStr ''terminated''"
    using d that by (auto simp: dispatch_eq deleteAlarms_eq split: prod.splits sum.splits)
  have other: "r = Inr () \<and> evs = [] \<and> w' = w"
    if "st \<noteq> JSStr ''running''" "st \<noteq> JSStr ''terminated''"
    using d that by (auto simp: dispatch_eq resolve_def)
  from fields running terminated other show ?thesis
    by blast
qed

text \<open>Scenarios D, C, B and A.\<close>

theorem handler_dispatch_witness:
  "handler reference_cloud (Some ''arn:aws:sns:alerts'')
     (lifecycle_event (JSStr ''i-123'') (JSStr ''pending'')) succeeding_cloud =
     (Inr (), [], succeeding_cloud) \<and>
   handler reference_cloud (Some ''arn:aws:sns:alerts'')
     (lifecycle_event (JSStr ''i-999'') (JSStr ''terminated'')) succeeding_cloud =
     (Inr (), [Remote (DeleteAlarms [''CPU-High-i-999'', ''Memory-High-i-999'']) Ack],
      succeeding_cloud) \<and>
   handler reference_cloud (Some ''arn:aws:sns:alerts'')
     (lifecycle_event (JSStr ''i-123'') (JSStr ''running'')) failing_cloud =
     (Inl (Error ''Command failed with status Failed: exit 1''),
      [Remote (SendCommand (installParams (JSStr ''i-123'')))
         (Sent \<lparr>Command = Some \<lparr>CommandId = Some ''cmd-1''\<rparr>\<rparr>),
       Sleep 5000,
       Remote (GetCommandInvocation ''cmd-1'' (JSStr ''i-123''))
         (Invocation \<lparr>Status = Some ''Failed'', StandardErrorContent = Some ''exit 1''\<rparr>)],
      failing_cloud\<lparr>invocations := [], clock := 5000\<rparr>) \<and>
   fst (handler reference_cloud (Some ''arn:aws:sns:alerts'')
     (lifecycle_event (JSStr ''i-123'') (JSStr ''running'')) succeeding_cloud) = Inr () \<and>
   map AlarmName (alarms (snd (snd (handler reference_cloud (Some ''arn:aws:sns:alerts'')
     (lifecycle_event (JSStr ''i-123'') (JSStr ''running'')) succeeding_cloud)))) =
     [''Memory-High-i-123'', ''CPU-High-i-123'']"
proof -
  let ?h = "handler reference_cloud (Some ''arn:aws:sns:alerts'')"
  have v: "validate (Some ''arn:aws:sns:alerts'') (lifecycle_event i st) =
      Inr (''arn:aws:sns:alerts'', i, st)" if "truthy i" "truthy st" for i st
    using that by (simp add: validate_def lifecycle_event_def)
  have c: "convertible (JSStr s)" for s
    by simp
  have pending: "?h (lifecycle_event (JSStr ''i-123'') (JSStr ''pending'')) succeeding_cloud =
      (fst (?h (lifecycle_event (JSStr ''i-123'') (JSStr ''pending'')) succeeding_cloud),
       fst (snd (?h (lifecycle_event (JSStr ''i-123'') (JSStr ''pending'')) succeeding_cloud)),
       snd (snd (?h (lifecycle_event (JSStr ''i-123'') (JSStr ''pending'')) succeeding_cloud)))"
    by simp
  have terminated: "?h (lifecycle_event (JSStr ''i-999'') (JSStr ''terminated'')) succeeding_cloud =
      (Inr (), [Remote (DeleteAlarms [''CPU-High-i-999'', ''Memory-High-i-999'']) Ack],
       succeeding_cloud)"
    by (simp add: handler_defs alarm_defs run_defs succeeding_cloud_def)
  have failing: "?h (lifecycle_event (JSStr ''i-123'') (JSStr ''running'')) failing_cloud =
     (Inl (Error ''Command failed with status Failed: exit 1''),
      [Remote (SendCommand (installParams (JSStr ''i-123'')))
         (Sent \<lparr>Command = Some \<lparr>CommandId = Some ''cmd-1''\<rparr>\<rparr>),
       Sleep 5000,
       Remote (GetCommandInvocation ''cmd-1'' (JSStr ''i-123''))
         (Invocation \<lparr>Status = Some ''Failed'', StandardErrorContent = Some ''exit 1''\<rparr>)],
      failing_cloud\<lparr>invocations := [], clock := 5000\<rparr>)"
    by (simp add: handler_defs alarm_defs run_defs failing_cloud_def succeeding_cloud_def)
  have running: "fst (?h (lifecycle_event (JSStr ''i-123'') (JSStr ''running'')) succeeding_cloud) = Inr ()"
    "map AlarmName (alarms (snd (snd (?h (lifecycle_event (JSStr ''i-123'') (JSStr ''running''))
        succeeding_cloud)))) = [''Memory-High-i-123'', ''CPU-High-i-123'']"
    by (simp_all add: handler_defs alarm_defs run_defs succeeding_cloud_def cpuAlarm_def
        memoryAlarm_def)
  have ignored: "?h (lifecycle_event (JSStr ''i-123'') (JSStr ''pending'')) succeeding_cloud =
      (Inr (), [], succeeding_cloud)"
    using handler_dispatch[OF v c c pending] by (simp add: prod_eq_iff)
  have "\<forall>ev \<in> set (fst (snd (?h (lifecycle_event (JSStr ''i-123'') (JSStr ''running'')) failing_cloud))).
      provisioning ev"
    using handler_dispatch[OF v c c failing] by (simp add: failing)
  with ignored terminated failing running show ?thesis
    by simp
qed

text \<open>
  C7. An event whose \<^verbatim>\<open>detail\<close> reads as undefined, or whose detail's
  \<^verbatim>\<open>instance-id\<close> or \<^verbatim>\<open>state\<close> reads as undefined, is rejected by one of the four
  errors thrown before line 261, with no event at all and the world unchanged.
  When the notification target is configured the error is the one of the first
  field found missing.
\<close>

theorem handler_rejects_missing:
  assumes "get_prop event ''detail'' = Inr JSUndefined \<or>
     (\<exists>d. get_prop event ''detail'' = Inr d \<and>
        (get_prop d ''instance-id'' = Inr JSUndefined \<or> get_prop d ''state'' = Inr JSUndefined))"
  shows "(\<exists>msg \<in> {''SNS_TOPIC_ARN environment variable is not set'',
                   ''Invalid event structure: missing or invalid detail object'',
                   ''Invalid event structure: missing instance-id'',
                   ''Invalid event structure: missing state''}.
            validate env event = Inl (Error msg) \<and>
            handler sv env event w = (Inl (Error msg), [], w)) \<and>
    (\<forall>t. env = Some t \<and> t \<noteq> [] \<and> get_prop event ''detail'' = Inr JSUndefined \<longrightarrow>
       handler sv env event w =
         (Inl (Error ''Invalid event structure: missing or invalid detail object''), [], w)) \<and>
    (\<forall>t d. env = Some t \<and> t \<noteq> [] \<and> get_prop event ''detail'' = Inr d \<and> truthy d \<and>
         typeof_object d \<and> get_prop d ''instance-id'' = Inr JSUndefined \<longrightarrow>
       handler sv env event w =
         (Inl (Error ''Invalid event structure: missing instance-id''), [], w)) \<and>
    (\<forall>t d i. env = Some t \<and> t \<noteq> [] \<and> get_prop event ''detail'' = Inr d \<and> truthy d \<and>
         typeof_object d \<and> get_prop d ''instance-id'' = Inr i \<and> truthy i \<and>
         get_prop d ''state'' = Inr JSUndefined \<longrightarrow>
       handler sv env event w =
         (Inl (Error ''Invalid event structure: missing state''), [], w)) \<and>
    (\<forall>e. validate env event = Inl e \<longrightarrow> handler sv env event w = (Inl e, [], w))"
proof -
  obtain d where d: "get_prop event ''detail'' = Inr d"
    and m: "d = JSUndefined \<or> get_prop d ''instance-id'' = Inr JSUndefined \<or>
        get_prop d ''state'' = Inr JSUndefined"
    using assms by auto
  have "\<exists>msg \<in> {''SNS_TOPIC_ARN environment variable is not set'',
                   ''Invalid event structure: missing or invalid detail object'',
                   ''Invalid event structure: missing instance-id'',
                   ''Invalid event structure: missing state''}.
            validate env event = Inl (Error msg)"
  proof (cases "truthy d \<and> typeof_object d")
    case False
    with d show ?thesis
      by (auto simp: validate_def split: option.splits)
  next
    case True
    then obtain x y where xy: "get_prop d ''instance-id'' = Inr x" "get_prop d ''state'' = Inr y"
      by (cases d) auto
    with True m have "x = JSUndefined \<or> y = JSUndefined"
      by auto
    with d True xy show ?thesis
      by (auto simp: validate_def split: option.splits)
  qed
  then have "\<exists>msg \<in> {''SNS_TOPIC_ARN environment variable is not set'',
                   ''Invalid event structure: missing or invalid detail object'',
                   ''Invalid event structure: missing instance-id'',
                   ''Invalid event structure: missing state''}.
            validate env event = Inl (Error msg) \<and>
            handler sv env event w = (Inl (Error msg), [], w)"
    by (auto simp: handler_invalid)
  moreover have "handler sv env event w =
         (Inl (Error ''Invalid event structure: missing or invalid detail object''), [], w)"
    if "env = Some t" "t \<noteq> []" "get_prop event ''detail'' = Inr JSUndefined" for t
    using that by (simp add: handler_def validate_def throw_def)
  moreover have "handler sv env event w =
         (Inl (Error ''Invalid event structure: missing instance-id''), [], w)"
    if "env = Some t" "t \<noteq> []" "get_prop event ''detail'' = Inr d" "truthy d" "typeof_object d"
      "get_prop d ''instance-id'' = Inr JSUndefined" for t d
    using that by (simp add: handler_def validate_def throw_def)
  moreover have "handler sv env event w =
         (Inl (Error ''Invalid event structure: missing state''), [], w)"
    if "env = Some t" "t \<noteq> []" "get_prop event ''detail'' = Inr d" "truthy d" "typeof_object d"
      "get_prop d ''instance-id'' = Inr i" "truthy i" "get_prop d ''state'' = Inr JSUndefined"
    for t d i
    using that by (simp add: handler_def validate_def throw_def)
  moreover have "handler sv env event w = (Inl e, [], w)" if "validate env event = Inl e" for e
    using that by (rule handler_invalid)
  ultimately show ?thesis
    by blast
qed

text \<open>An event without detail, one without instance id, one without state.\<close>

theorem handler_rejects_missing_witness:
  "handler reference_cloud (Some ''arn:aws:sns:alerts'') (JSObj []) succeeding_cloud =
     (Inl (Error ''Invalid event structure: missing or invalid detail object''), [],
      succeeding_cloud) \<and>
   handler reference_cloud (Some ''arn:aws:sns:alerts'')
     (JSObj [(''detail'', JSObj [(''state'', JSStr ''running'')])]) succeeding_cloud =
     (Inl (Error ''Invalid event structure: missing instance-id''), [], succeeding_cloud) \<and>
   handler reference_cloud (Some ''arn:aws:sns:alerts'')
     (JSObj [(''detail'', JSObj [(''instance-id'', JSStr ''i-123'')])]) succeeding_cloud =
     (Inl (Error ''Invalid event structure: missing state''), [], succeeding_cloud)"
proof -
  have m1: "get_prop (JSObj []) ''detail'' = Inr JSUndefined \<or>
     (\<exists>d. get_prop (JSObj []) ''detail'' = Inr d \<and>
        (get_prop d ''instance-id'' = Inr JSUndefined \<or> get_prop d ''state'' = Inr JSUndefined))"
    by simp
  have m2: "get_prop (JSObj [(''detail'', JSObj [(''state'', JSStr ''running'')])]) ''detail''
        = Inr JSUndefined \<or>
     (\<exists>d. get_prop (JSObj [(''detail'', JSObj [(''state'', JSStr ''running'')])]) ''detail'' = Inr d \<and>
        (get_prop d ''instance-id'' = Inr JSUndefined \<or> get_prop d ''state'' = Inr JSUndefined))"
    by simp
  have m3: "get_prop (JSObj [(''detail'', JSObj [(''instance-id'', JSStr ''i-123'')])]) ''detail''
        = Inr JSUndefined \<or>
     (\<exists>d. get_prop (JSObj [(''detail'', JSObj [(''instance-id'', JSStr ''i-123'')])]) ''detail'' = Inr d \<and>
        (get_prop d ''instance-id'' = Inr JSUndefined \<or> get_prop d ''state'' = Inr JSUndefined))"
    by simp
  from handler_rejects_missing[OF m1, of "Some ''arn:aws:sns:alerts''" reference_cloud succeeding_cloud]
    handler_rejects_missing[OF m2, of "Some ''arn:aws:sns:alerts''" reference_cloud succeeding_cloud]
    handler_rejects_missing[OF m3, of "Some ''arn:aws:sns:alerts''" reference_cloud succeeding_cloud]
  show ?thesis
    by simp
qed

text \<open>
  C10. An event whose detail has the empty string as \<^verbatim>\<open>instance-id\<close> or as \<^verbatim>\<open>state\<close>
  is rejected with no event at all and the world unchanged, and the handler does
  on it exactly what it does on an event where that field reads as undefined
  (the other field being the same): the error is \<^verbatim>\<open>missing instance-id\<close> or
  \<^verbatim>\<open>missing state\<close>. Whatever passes the checks has a truthy instance id and a
  truthy state, neither of them the empty string.
\<close>

theorem handler_rejects_empty:
  assumes detail: "get_prop event ''detail'' = Inr d"
    and empty: "get_prop d ''instance-id'' = Inr (JSStr []) \<or> get_prop d ''state'' = Inr (JSStr [])"
  shows "(\<exists>e. validate env event = Inl e \<and> handler sv env event w = (Inl e, [], w)) \<and>
    (\<forall>t. env = Some t \<and> t \<noteq> [] \<and> get_prop d ''instance-id'' = Inr (JSStr []) \<longrightarrow>
       handler sv env event w =
         (Inl (Error ''Invalid event structure: missing instance-id''), [], w)) \<and>
    (\<forall>t i. env = Some t \<and> t \<noteq> [] \<and> get_prop d ''instance-id'' = Inr i \<and> truthy i \<and>
         get_prop d ''state'' = Inr (JSStr []) \<longrightarrow>
       handler sv env event w =
         (Inl (Error ''Invalid event structure: missing state''), [], w)) \<and>
    (\<forall>event2 d2. get_prop d ''instance-id'' = Inr (JSStr []) \<and>
         get_prop event2 ''detail'' = Inr d2 \<and> truthy d2 \<and> typeof_object d2 \<and>
         get_prop d2 ''instance-id'' = Inr JSUndefined \<longrightarrow>
       handler sv env event w = handler sv env event2 w) \<and>
    (\<forall>event2 d2. get_prop d ''state'' = Inr (JSStr []) \<and>
         get_prop event2 ''detail'' = Inr d2 \<and> truthy d2 \<and> typeof_object d2 \<and>
         get_prop d2 ''instance-id'' = get_prop d ''instance-id'' \<and>
         get_prop d2 ''state'' = Inr JSUndefined \<longrightarrow>
       handler sv env event w = handler sv env event2 w) \<and>
    (\<forall>env2 event2 t i st. validate env2 event2 = Inr (t, i, st) \<longrightarrow>
       i \<noteq> JSStr [] \<and> st \<noteq> JSStr [] \<and> truthy i \<and> truthy st)"
proof -
  from empty have obj: "truthy d" "typeof_object d"
    by (auto dest: empty_string_field)
  have rejected: "\<exists>e. validate env event = Inl e"
    using detail empty obj by (auto simp: validate_def split: option.splits sum.splits)
  then have "\<exists>e. validate env event = Inl e \<and> handler sv env event w = (Inl e, [], w)"
    by (auto simp: handler_invalid)
  moreover have "handler sv env event w =
         (Inl (Error ''Invalid event structure: missing instance-id''), [], w)"
    if "env = Some t" "t \<noteq> []" "get_prop d ''instance-id'' = Inr (JSStr [])" for t
    using that detail obj by (simp add: handler_def validate_def throw_def)
  moreover have "handler sv env event w =
         (Inl (Error ''Invalid event structure: missing state''), [], w)"
    if "env = Some t" "t \<noteq> []" "get_prop d ''instance-id'' = Inr i" "truthy i"
      "get_prop d ''state'' = Inr (JSStr [])" for t i
    using that detail obj by (simp add: handler_def validate_def throw_def)
  moreover have "handler sv env event w = handler sv env event2 w"
    if "get_prop d ''instance-id'' = Inr (JSStr [])" "get_prop event2 ''detail'' = Inr d2"
      "truthy d2" "typeof_object d2" "get_prop d2 ''instance-id'' = Inr JSUndefined" for event2 d2
    using that detail obj
    by (simp add: handler_def validate_def split: option.splits)
  moreover have "handler sv env event w = handler sv env event2 w"
    if "get_prop d ''state'' = Inr (JSStr [])"
      "get_prop event2 ''detail'' = Inr d2" "truthy d2" "typeof_object d2"
      "get_prop d2 ''instance-id'' = get_prop d ''instance-id''"
      "get_prop d2 ''state'' = Inr JSUndefined" for event2 d2
    using that detail obj
    by (simp add: handler_def validate_def split: option.splits sum.splits)
  moreover have "i \<noteq> JSStr [] \<and> st \<noteq> JSStr [] \<and> truthy i \<and> truthy st"
    if "validate env2 event2 = Inr (t, i, st)" for env2 event2 t i st
    using validate_Inr[OF that] by auto
  ultimately show ?thesis
    by blast
qed

text \<open>An empty instance id, and an empty state.\<close>

theorem handler_rejects_empty_witness:
  "handler reference_cloud (Some ''arn:aws:sns:alerts'')
     (lifecycle_event (JSStr []) (JSStr ''running'')) succeeding_cloud =
     (Inl (Error ''Invalid event structure: missing instance-id''), [], succeeding_cloud) \<and>
   handler reference_cloud (Some ''arn:aws:sns:alerts'')
     (lifecycle_event (JSStr ''i-123'') (JSStr [])) succeeding_cloud =
     (Inl (Error ''Invalid event structure: missing state''), [], succeeding_cloud)"
proof -
  have d: "get_prop (lifecycle_event i st) ''detail'' =
      Inr (JSObj [(''instance-id'', i), (''state'', st)])" for i st
    by (simp add: lifecycle_event_def)
  have e1: "get_prop (JSObj [(''instance-id'', JSStr []), (''state'', JSStr ''running'')]) ''instance-id''
        = Inr (JSStr []) \<or>
      get_prop (JSObj [(''instance-id'', JSStr []), (''state'', JSStr ''running'')]) ''state''
        = Inr (JSStr [])"
    by simp
  have e2: "get_prop (JSObj [(''instance-id'', JSStr ''i-123''), (''state'', JSStr [])]) ''instance-id''
        = Inr (JSStr []) \<or>
      get_prop (JSObj [(''instance-id'', JSStr ''i-123''), (''state'', JSStr [])]) ''state''
        = Inr (JSStr [])"
    by simp
  from handler_rejects_empty[OF d e1, of "Some ''arn:aws:sns:alerts''" reference_cloud succeeding_cloud]
    handler_rejects_empty[OF d e2, of "Some ''arn:aws:sns:alerts''" reference_cloud succeeding_cloud]
  show ?thesis
    by simp
qed

end
